theory Spec2Isabelle
  imports Main
begin

section \<open>The xlog package as a state-passing program\<close>

text \<open>
  The package (\<^verbatim>\<open>xlog.go\<close>, with the syslog adapter \<^verbatim>\<open>setup\<close>) routes log records of
  five severities to lists of \<^verbatim>\<open>io.Writer\<close> endpoints, keeps one process-wide default
  logger behind the mutex \<^verbatim>\<open>logLock\<close>, and closes the closable endpoints on \<^verbatim>\<open>Close\<close>.

  The embedding is sequential (one goroutine). Everything the code does beyond returning a
  value is explicit: the package variables and the heap of \<^verbatim>\<open>Logger\<close> objects are fields of
  a \<open>world\<close> record; a panic, a \<^verbatim>\<open>Lock\<close> on the mutex the goroutine already holds, and
  \<^verbatim>\<open>os.Exit\<close> are constructors of the result type; every \<^verbatim>\<open>Write\<close> and \<^verbatim>\<open>Close\<close> call on an
  endpoint is appended to a trace, and what the endpoint answers is a field of the world.

  The adapter modelled is the syslog one. The event-log adapter of \<^verbatim>\<open>xlog_windows.go\<close> has
  the same shape (three \<^verbatim>\<open>newW\<close> calls, the first failure giving three nil pointers and
  the error). \<^verbatim>\<open>SetFlags\<close> takes part in no property below and is left out.
\<close>

subsection \<open>Interface values and endpoints\<close>

type_synonym addr = nat

text \<open>
  The dynamic type of a pointer stored in an \<^verbatim>\<open>io.Writer\<close>: \<^verbatim>\<open>*syslog.Writer\<close> (what
  \<^verbatim>\<open>setup\<close> returns), \<^verbatim>\<open>*os.File\<close>, or a type of the caller's, with its name and whether it
  has a \<^verbatim>\<open>Close() error\<close> method.
\<close>

datatype gotype = TSyslog | TFile | TUser string bool

text \<open>
  An \<^verbatim>\<open>io.Writer\<close> value: the nil interface, or a dynamic type with a pointer that may
  itself be nil. An interface that holds a nil pointer is not the nil interface: the
  comparison \<^verbatim>\<open>w != nil\<close> is true for \<open>Ptr t None\<close>.
\<close>

datatype writer = NilWriter | Ptr gotype "addr option"

definition os_Stdout :: writer where
  "os_Stdout = Ptr TFile (Some 1)"

definition os_Stderr :: writer where
  "os_Stderr = Ptr TFile (Some 2)"

text \<open>The type assertion \<^verbatim>\<open>w.(io.Closer)\<close>: its \<^verbatim>\<open>ok\<close> result.\<close>

fun is_Closer :: "writer \<Rightarrow> bool" where
  "is_Closer NilWriter = False"
| "is_Closer (Ptr TSyslog p) = True"
| "is_Closer (Ptr TFile p) = True"
| "is_Closer (Ptr (TUser n c) p) = c"

text \<open>
  An argument of the variadic \<^verbatim>\<open>v ...interface{}\<close>: a string or an error (what a value of
  another type prints as is up to \<^verbatim>\<open>fmt\<close>, which stays abstract below).
\<close>

datatype gval = VString string | VError string

subsection \<open>Constants of xlog.go\<close>

type_synonym log_level = int

definition eFatal :: log_level where "eFatal = 0"
definition eError :: log_level where "eError = 1"
definition eWarn :: log_level where "eWarn = 2"
definition eInfo :: log_level where "eInfo = 3"
definition eTrace :: log_level where "eTrace = 4"

definition tagFatal :: string where "tagFatal = ''[F] ''"
definition tagError :: string where "tagError = ''[E] ''"
definition tagWarn :: string where "tagWarn = ''[W] ''"
definition tagInfo :: string where "tagInfo = ''[I] ''"
definition tagTrace :: string where "tagTrace = ''[T] ''"

definition newline :: char where
  "newline = CHR 0x0A"

text \<open>\<^verbatim>\<open>log.Ldate | log.Lmicroseconds | log.Lshortfile\<close>: the bits 1, 4 and 16.\<close>

definition flags :: int where
  "flags = 1 + 4 + 16"

definition initText :: string where
  "initText = ''Logging before logger.Init.'' @ [newline]"

subsection \<open>Loggers\<close>

text \<open>
  A \<^verbatim>\<open>*log.Logger\<close> as \<^verbatim>\<open>log.New(out, prefix, flag)\<close> builds it. Its \<^verbatim>\<open>out\<close> is the
  \<^verbatim>\<open>io.MultiWriter\<close> over a list of endpoints, kept as that list (the bootstrap loggers
  write to \<^verbatim>\<open>os.Stderr\<close> alone, the one-element list).
\<close>

record golog =
  lg_out :: "writer list"
  lg_prefix :: string
  lg_flag :: int

record Logger =
  logFatal :: golog
  logError :: golog
  logWarn :: golog
  logInfo :: golog
  logTrace :: golog
  closers :: "writer list"
  initialized :: bool

subsection \<open>The world\<close>

text \<open>What the program does to an endpoint, in order.\<close>

datatype event =
    EvWrite writer string
  | EvClose writer
  | EvCloseFailed writer string

text \<open>
  What an endpoint answers to \<^verbatim>\<open>Write\<close>: all bytes taken, fewer bytes taken without an
  error, an error, or a panic inside the method; and to \<^verbatim>\<open>Close\<close>.
\<close>

datatype wres = WOk | WShort | WErr string | WPanic

datatype cres = COk | CErr string | CPanic

text \<open>
  \<open>logLock\<close>: the mutex is held. \<open>defaultLogger\<close>: the package variable, a pointer into
  \<open>heap\<close>. \<open>on_write\<close> and \<open>on_close\<close>: the endpoints' answers, which may depend on
  everything done so far (a closed file refuses writes). \<open>dial\<close>: the results of the
  coming \<^verbatim>\<open>syslog.New\<close> calls, \<open>None\<close> a success, \<open>Some e\<close> the error \<open>e\<close>; past the end of
  the list every call succeeds.
\<close>

record world =
  logLock :: bool
  defaultLogger :: addr
  heap :: "addr \<Rightarrow> Logger option"
  nextAddr :: addr
  trace :: "event list"
  on_write :: "event list \<Rightarrow> writer \<Rightarrow> string \<Rightarrow> wres"
  on_close :: "event list \<Rightarrow> writer \<Rightarrow> cres"
  dial :: "string option list"

text \<open>
  How a call ends: it returns, it panics, it blocks forever on \<^verbatim>\<open>logLock.Lock()\<close>
  (\<^verbatim>\<open>sync.Mutex\<close> is not reentrant), or the process exits with a status.
\<close>

datatype 'a outcome =
    Returned 'a world
  | Panicked world
  | Deadlocked world
  | Exited int world

fun seq :: "'a outcome \<Rightarrow> ('a \<Rightarrow> world \<Rightarrow> 'b outcome) \<Rightarrow> 'b outcome" where
  "seq (Returned a w) f = f a w"
| "seq (Panicked w) f = Panicked w"
| "seq (Deadlocked w) f = Deadlocked w"
| "seq (Exited n w) f = Exited n w"

fun final :: "'a outcome \<Rightarrow> world" where
  "final (Returned a w) = w"
| "final (Panicked w) = w"
| "final (Deadlocked w) = w"
| "final (Exited n w) = w"

text \<open>
  \<^verbatim>\<open>logLock.Lock(); defer logLock.Unlock()\<close> around a body: the deferred unlock runs when
  the body returns and when it panics, not when it blocks or the process exits.
\<close>

definition locked :: "(world \<Rightarrow> 'a outcome) \<Rightarrow> world \<Rightarrow> 'a outcome" where
  "locked body w =
     (if logLock w then Deadlocked w
      else (case body (w\<lparr>logLock := True\<rparr>) of
              Returned a w' \<Rightarrow> Returned a (w'\<lparr>logLock := False\<rparr>)
            | Panicked w' \<Rightarrow> Panicked (w'\<lparr>logLock := False\<rparr>)
            | Deadlocked w' \<Rightarrow> Deadlocked w'
            | Exited n w' \<Rightarrow> Exited n w'))"

definition record_event :: "event \<Rightarrow> world \<Rightarrow> world" where
  "record_event e w = w\<lparr>trace := trace w @ [e]\<rparr>"

subsection \<open>The Go standard library, as the package uses it\<close>

text \<open>
  \<^verbatim>\<open>fmt.Sprint\<close>, \<^verbatim>\<open>fmt.Sprintln\<close>, \<^verbatim>\<open>fmt.Sprintf\<close>, and the header that \<^verbatim>\<open>log.Logger\<close>
  puts after the prefix (date, time and \<^verbatim>\<open>file:line\<close> of the frame \<open>calldepth\<close> up the
  stack, chosen by the flag bits): left abstract, as parameters of every operation.
\<close>

record lib =
  Sprint :: "gval list \<Rightarrow> string"
  Sprintln :: "gval list \<Rightarrow> string"
  Sprintf :: "string \<Rightarrow> gval list \<Rightarrow> string"
  header :: "int \<Rightarrow> int \<Rightarrow> string"

text \<open>
  One \<^verbatim>\<open>Write\<close> call on an endpoint, as the multiWriter sees it. A method call on the
  nil interface panics; any other endpoint is called (a nil pointer inside an interface
  is a receiver like any other: what its method does is the endpoint's answer), the call
  is recorded, and the endpoint answers. The result is the error the multiWriter goes on
  with: none, the endpoint's own, or \<^verbatim>\<open>io.ErrShortWrite\<close> when the endpoint took fewer bytes
  without an error.
\<close>

definition endpoint_Write :: "writer \<Rightarrow> string \<Rightarrow> world \<Rightarrow> (string option) outcome" where
  "endpoint_Write x p w =
     (if x = NilWriter then Panicked w
      else (case on_write w (trace w) x p of
              WOk \<Rightarrow> Returned None (record_event (EvWrite x p) w)
            | WShort \<Rightarrow> Returned (Some ''short write'') (record_event (EvWrite x p) w)
            | WErr e \<Rightarrow> Returned (Some e) (record_event (EvWrite x p) w)
            | WPanic \<Rightarrow> Panicked (record_event (EvWrite x p) w)))"

text \<open>
  \<^verbatim>\<open>(*multiWriter).Write\<close> of package \<^verbatim>\<open>io\<close>:
  \<^verbatim>\<open>
  for _, w := range t.writers {
      n, err = w.Write(p)
      if err != nil { return }
      if n != len(p) { err = ErrShortWrite; return }
  }
  return len(p), nil
  \<close>
\<close>

fun multiWriter_Write :: "writer list \<Rightarrow> string \<Rightarrow> world \<Rightarrow> (string option) outcome" where
  "multiWriter_Write [] p w = Returned None w"
| "multiWriter_Write (x # xs) p w =
     (case endpoint_Write x p w of
        Returned None w' \<Rightarrow> multiWriter_Write xs p w'
      | Returned (Some e) w' \<Rightarrow> Returned (Some e) w'
      | Panicked w' \<Rightarrow> Panicked w'
      | Deadlocked w' \<Rightarrow> Deadlocked w'
      | Exited n w' \<Rightarrow> Exited n w')"

text \<open>
  The line \<^verbatim>\<open>(*log.Logger).Output(calldepth, s)\<close> writes: the prefix, the header, \<open>s\<close>, and
  a newline unless \<open>s\<close> ends in one.
\<close>

definition format_line :: "lib \<Rightarrow> golog \<Rightarrow> int \<Rightarrow> string \<Rightarrow> string" where
  "format_line lb lg calldepth s =
     lg_prefix lg @ header lb (lg_flag lg) calldepth @ s
       @ (if s \<noteq> [] \<and> last s = newline then [] else [newline])"

definition log_Output :: "lib \<Rightarrow> golog \<Rightarrow> int \<Rightarrow> string \<Rightarrow> world \<Rightarrow> (string option) outcome" where
  "log_Output lb lg calldepth s w = multiWriter_Write (lg_out lg) (format_line lb lg calldepth s) w"

text \<open>
  \<^verbatim>\<open>syslog.New(priority, tag)\<close>: dials the system log; a success is a fresh
  \<^verbatim>\<open>*syslog.Writer\<close>.
\<close>

definition syslog_New :: "int \<Rightarrow> string \<Rightarrow> world \<Rightarrow> (string + addr) \<times> world" where
  "syslog_New priority tag w =
     (case dial w of
        Some e # rest \<Rightarrow> (Inl e, w\<lparr>dial := rest\<rparr>)
      | _ \<Rightarrow> (Inr (nextAddr w), w\<lparr>nextAddr := Suc (nextAddr w), dial := tl (dial w)\<rparr>))"

definition LOG_USER :: int where "LOG_USER = 8"
definition LOG_ERR :: int where "LOG_ERR = 3"
definition LOG_WARNING :: int where "LOG_WARNING = 4"
definition LOG_NOTICE :: int where "LOG_NOTICE = 5"

subsection \<open>The platform adapter: setup\<close>

text \<open>
  (\<open>setup\<close> is a keyword of Isabelle, so the definition is named \<open>setup_syslog\<close>.)
  \<^verbatim>\<open>func setup(src string) (*syslog.Writer, *syslog.Writer, *syslog.Writer, error)\<close>: three
  dials; the first that fails makes the result three nil pointers and the error. The
  facility and the severity are disjoint bits, so \<^verbatim>\<open>facility|syslog.LOG_NOTICE\<close> is their
  sum.
\<close>

definition setup_syslog ::
  "string \<Rightarrow> world \<Rightarrow> (addr option \<times> addr option \<times> addr option \<times> string option) \<times> world" where
  "setup_syslog src w =
     (case syslog_New (LOG_USER + LOG_NOTICE) src w of
        (Inl err, w1) \<Rightarrow> ((None, None, None, Some err), w1)
      | (Inr il, w1) \<Rightarrow>
          (case syslog_New (LOG_USER + LOG_WARNING) src w1 of
             (Inl err, w2) \<Rightarrow> ((None, None, None, Some err), w2)
           | (Inr wl, w2) \<Rightarrow>
               (case syslog_New (LOG_USER + LOG_ERR) src w2 of
                  (Inl err, w3) \<Rightarrow> ((None, None, None, Some err), w3)
                | (Inr el, w3) \<Rightarrow> ((Some il, Some wl, Some el, None), w3))))"

subsection \<open>xlog.go: the default logger\<close>

definition log_New :: "writer list \<Rightarrow> string \<Rightarrow> int \<Rightarrow> golog" where
  "log_New ws pre flag = \<lparr>lg_out = ws, lg_prefix = pre, lg_flag = flag\<rparr>"

text \<open>\<^verbatim>\<open>&Logger{...}\<close>: the object gets a fresh address.\<close>

definition new_Logger :: "Logger \<Rightarrow> world \<Rightarrow> addr \<times> world" where
  "new_Logger l w =
     (nextAddr w, w\<lparr>heap := (heap w)(nextAddr w := Some l), nextAddr := Suc (nextAddr w)\<rparr>)"

text \<open>
  \<^verbatim>\<open>func initialize()\<close>, run by \<^verbatim>\<open>init()\<close> when the package is loaded: the bootstrap
  logger, with no closers and \<^verbatim>\<open>initialized\<close> false.
\<close>

definition initialize :: "world \<Rightarrow> world" where
  "initialize w =
     (case new_Logger
        \<lparr>logFatal = log_New [os_Stderr] (initText @ tagFatal) flags,
         logError = log_New [os_Stderr] (initText @ tagError) flags,
         logWarn = log_New [os_Stderr] (initText @ tagWarn) flags,
         logInfo = log_New [os_Stderr] (initText @ tagInfo) flags,
         logTrace = log_New [os_Stderr] (initText @ tagTrace) flags,
         closers = [],
         initialized = False\<rparr> w of
        (p, w') \<Rightarrow> w'\<lparr>defaultLogger := p\<rparr>)"

text \<open>
  The process right after its package initialisation, with the endpoints' behaviour and
  the system log's as given. Addresses 1 and 2 are the two console files.
\<close>

definition process_start ::
  "(event list \<Rightarrow> writer \<Rightarrow> string \<Rightarrow> wres) \<Rightarrow> (event list \<Rightarrow> writer \<Rightarrow> cres) \<Rightarrow> string option list \<Rightarrow> world" where
  "process_start ow oc d =
     initialize \<lparr>logLock = False, defaultLogger = 0, heap = (\<lambda>a. None), nextAddr = 3,
       trace = [], on_write = ow, on_close = oc, dial = d\<rparr>"

subsection \<open>xlog.go: output and Close\<close>

text \<open>
  \<^verbatim>\<open>func (l *Logger) output(level log_level, depth int, txt string)\<close>, named
  \<open>Logger_output\<close> as the other methods are. The result of
  \<^verbatim>\<open>Output\<close> is dropped. Reading a field through a pointer that holds no Logger panics.
\<close>

definition output_to ::
  "lib \<Rightarrow> addr \<Rightarrow> (Logger \<Rightarrow> golog) \<Rightarrow> int \<Rightarrow> string \<Rightarrow> world \<Rightarrow> unit outcome" where
  "output_to lb l field calldepth txt w =
     (case heap w l of
        None \<Rightarrow> Panicked w
      | Some lg \<Rightarrow> seq (log_Output lb (field lg) calldepth txt w) (\<lambda>err w'. Returned () w'))"

definition Logger_output :: "lib \<Rightarrow> addr \<Rightarrow> log_level \<Rightarrow> int \<Rightarrow> string \<Rightarrow> world \<Rightarrow> unit outcome" where
  "Logger_output lb l level depth txt =
     locked (\<lambda>w.
       if level = eTrace then output_to lb l logTrace (3 + depth) txt w
       else if level = eInfo then output_to lb l logInfo (3 + depth) txt w
       else if level = eWarn then output_to lb l logWarn (3 + depth) txt w
       else if level = eError then output_to lb l logError (3 + depth) txt w
       else if level = eFatal then output_to lb l logFatal (3 + depth) txt w
       else Panicked w)"

text \<open>
  The loop of \<^verbatim>\<open>Close\<close>: every closer is closed; a failure is printed to standard error
  and the loop goes on.
\<close>

fun close_each :: "writer list \<Rightarrow> world \<Rightarrow> unit outcome" where
  "close_each [] w = Returned () w"
| "close_each (c # cs) w =
     (case on_close w (trace w) c of
        COk \<Rightarrow> close_each cs (record_event (EvClose c) w)
      | CErr e \<Rightarrow> close_each cs (record_event (EvCloseFailed c e) (record_event (EvClose c) w))
      | CPanic \<Rightarrow> Panicked (record_event (EvClose c) w))"

text \<open>\<^verbatim>\<open>func (l *Logger) Close()\<close>.\<close>

definition Logger_Close :: "addr \<Rightarrow> world \<Rightarrow> unit outcome" where
  "Logger_Close l =
     locked (\<lambda>w.
       case heap w l of
         None \<Rightarrow> Panicked w
       | Some lg \<Rightarrow> if \<not> initialized lg then Returned () w else close_each (closers lg) w)"

text \<open>\<^verbatim>\<open>func Close()\<close>.\<close>

definition Close :: "world \<Rightarrow> unit outcome" where
  "Close w = Logger_Close (defaultLogger w) w"

subsection \<open>xlog.go: the methods of Logger\<close>

definition Logger_Trace :: "lib \<Rightarrow> addr \<Rightarrow> gval list \<Rightarrow> world \<Rightarrow> unit outcome" where
  "Logger_Trace lb l v = Logger_output lb l eTrace 0 (Sprint lb v)"

definition Logger_TraceDepth :: "lib \<Rightarrow> addr \<Rightarrow> int \<Rightarrow> gval list \<Rightarrow> world \<Rightarrow> unit outcome" where
  "Logger_TraceDepth lb l depth v = Logger_output lb l eTrace depth (Sprint lb v)"

definition Logger_Traceln :: "lib \<Rightarrow> addr \<Rightarrow> gval list \<Rightarrow> world \<Rightarrow> unit outcome" where
  "Logger_Traceln lb l v = Logger_output lb l eTrace 0 (Sprintln lb v)"

definition Logger_Tracef :: "lib \<Rightarrow> addr \<Rightarrow> string \<Rightarrow> gval list \<Rightarrow> world \<Rightarrow> unit outcome" where
  "Logger_Tracef lb l format v = Logger_output lb l eTrace 0 (Sprintf lb format v)"

definition Logger_Info :: "lib \<Rightarrow> addr \<Rightarrow> gval list \<Rightarrow> world \<Rightarrow> unit outcome" where
  "Logger_Info lb l v = Logger_output lb l eInfo 0 (Sprint lb v)"

definition Logger_InfoDepth :: "lib \<Rightarrow> addr \<Rightarrow> int \<Rightarrow> gval list \<Rightarrow> world \<Rightarrow> unit outcome" where
  "Logger_InfoDepth lb l depth v = Logger_output lb l eInfo depth (Sprint lb v)"

definition Logger_Infoln :: "lib \<Rightarrow> addr \<Rightarrow> gval list \<Rightarrow> world \<Rightarrow> unit outcome" where
  "Logger_Infoln lb l v = Logger_output lb l eInfo 0 (Sprintln lb v)"

definition Logger_Infof :: "lib \<Rightarrow> addr \<Rightarrow> string \<Rightarrow> gval list \<Rightarrow> world \<Rightarrow> unit outcome" where
  "Logger_Infof lb l format v = Logger_output lb l eInfo 0 (Sprintf lb format v)"

definition Logger_Warning :: "lib \<Rightarrow> addr \<Rightarrow> gval list \<Rightarrow> world \<Rightarrow> unit outcome" where
  "Logger_Warning lb l v = Logger_output lb l eWarn 0 (Sprint lb v)"

definition Logger_WarningDepth :: "lib \<Rightarrow> addr \<Rightarrow> int \<Rightarrow> gval list \<Rightarrow> world \<Rightarrow> unit outcome" where
  "Logger_WarningDepth lb l depth v = Logger_output lb l eWarn depth (Sprint lb v)"

definition Logger_Warningln :: "lib \<Rightarrow> addr \<Rightarrow> gval list \<Rightarrow> world \<Rightarrow> unit outcome" where
  "Logger_Warningln lb l v = Logger_output lb l eWarn 0 (Sprintln lb v)"

definition Logger_Warningf :: "lib \<Rightarrow> addr \<Rightarrow> string \<Rightarrow> gval list \<Rightarrow> world \<Rightarrow> unit outcome" where
  "Logger_Warningf lb l format v = Logger_output lb l eWarn 0 (Sprintf lb format v)"

definition Logger_Error :: "lib \<Rightarrow> addr \<Rightarrow> gval list \<Rightarrow> world \<Rightarrow> unit outcome" where
  "Logger_Error lb l v = Logger_output lb l eError 0 (Sprint lb v)"

definition Logger_ErrorDepth :: "lib \<Rightarrow> addr \<Rightarrow> int \<Rightarrow> gval list \<Rightarrow> world \<Rightarrow> unit outcome" where
  "Logger_ErrorDepth lb l depth v = Logger_output lb l eError depth (Sprint lb v)"

definition Logger_Errorln :: "lib \<Rightarrow> addr \<Rightarrow> gval list \<Rightarrow> world \<Rightarrow> unit outcome" where
  "Logger_Errorln lb l v = Logger_output lb l eError 0 (Sprintln lb v)"

definition Logger_Errorf :: "lib \<Rightarrow> addr \<Rightarrow> string \<Rightarrow> gval list \<Rightarrow> world \<Rightarrow> unit outcome" where
  "Logger_Errorf lb l format v = Logger_output lb l eError 0 (Sprintf lb format v)"

text \<open>\<^verbatim>\<open>os.Exit(code)\<close>.\<close>

definition os_Exit :: "int \<Rightarrow> world \<Rightarrow> unit outcome" where
  "os_Exit code w = Exited code w"

definition Logger_Fatal :: "lib \<Rightarrow> addr \<Rightarrow> gval list \<Rightarrow> world \<Rightarrow> unit outcome" where
  "Logger_Fatal lb l v w =
     seq (Logger_output lb l eFatal 0 (Sprint lb v) w) (\<lambda>u w1.
     seq (Logger_Close l w1) (\<lambda>u w2.
     os_Exit 1 w2))"

definition Logger_FatalDepth :: "lib \<Rightarrow> addr \<Rightarrow> int \<Rightarrow> gval list \<Rightarrow> world \<Rightarrow> unit outcome" where
  "Logger_FatalDepth lb l depth v w =
     seq (Logger_output lb l eFatal depth (Sprint lb v) w) (\<lambda>u w1.
     seq (Logger_Close l w1) (\<lambda>u w2.
     os_Exit 1 w2))"

definition Logger_Fatalln :: "lib \<Rightarrow> addr \<Rightarrow> gval list \<Rightarrow> world \<Rightarrow> unit outcome" where
  "Logger_Fatalln lb l v w =
     seq (Logger_output lb l eFatal 0 (Sprintln lb v) w) (\<lambda>u w1.
     seq (Logger_Close l w1) (\<lambda>u w2.
     os_Exit 1 w2))"

definition Logger_Fatalf :: "lib \<Rightarrow> addr \<Rightarrow> string \<Rightarrow> gval list \<Rightarrow> world \<Rightarrow> unit outcome" where
  "Logger_Fatalf lb l format v w =
     seq (Logger_output lb l eFatal 0 (Sprintf lb format v) w) (\<lambda>u w1.
     seq (Logger_Close l w1) (\<lambda>u w2.
     os_Exit 1 w2))"

subsection \<open>xlog.go: the package-level functions\<close>

text \<open>Each reads the package variable \<^verbatim>\<open>defaultLogger\<close> where the source names it.\<close>

definition Trace :: "lib \<Rightarrow> gval list \<Rightarrow> world \<Rightarrow> unit outcome" where
  "Trace lb v w = Logger_output lb (defaultLogger w) eTrace 0 (Sprint lb v) w"

definition TraceDepth :: "lib \<Rightarrow> int \<Rightarrow> gval list \<Rightarrow> world \<Rightarrow> unit outcome" where
  "TraceDepth lb depth v w = Logger_output lb (defaultLogger w) eTrace depth (Sprint lb v) w"

definition Traceln :: "lib \<Rightarrow> gval list \<Rightarrow> world \<Rightarrow> unit outcome" where
  "Traceln lb v w = Logger_output lb (defaultLogger w) eTrace 0 (Sprintln lb v) w"

definition Tracef :: "lib \<Rightarrow> string \<Rightarrow> gval list \<Rightarrow> world \<Rightarrow> unit outcome" where
  "Tracef lb format v w = Logger_output lb (defaultLogger w) eTrace 0 (Sprintf lb format v) w"

definition Info :: "lib \<Rightarrow> gval list \<Rightarrow> world \<Rightarrow> unit outcome" where
  "Info lb v w = Logger_output lb (defaultLogger w) eInfo 0 (Sprint lb v) w"

definition InfoDepth :: "lib \<Rightarrow> int \<Rightarrow> gval list \<Rightarrow> world \<Rightarrow> unit outcome" where
  "InfoDepth lb depth v w = Logger_output lb (defaultLogger w) eInfo depth (Sprint lb v) w"

definition Infoln :: "lib \<Rightarrow> gval list \<Rightarrow> world \<Rightarrow> unit outcome" where
  "Infoln lb v w = Logger_output lb (defaultLogger w) eInfo 0 (Sprintln lb v) w"

definition Infof :: "lib \<Rightarrow> string \<Rightarrow> gval list \<Rightarrow> world \<Rightarrow> unit outcome" where
  "Infof lb format v w = Logger_output lb (defaultLogger w) eInfo 0 (Sprintf lb format v) w"

definition Warning :: "lib \<Rightarrow> gval list \<Rightarrow> world \<Rightarrow> unit outcome" where
  "Warning lb v w = Logger_output lb (defaultLogger w) eWarn 0 (Sprint lb v) w"

definition WarningDepth :: "lib \<Rightarrow> int \<Rightarrow> gval list \<Rightarrow> world \<Rightarrow> unit outcome" where
  "WarningDepth lb depth v w = Logger_output lb (defaultLogger w) eWarn depth (Sprint lb v) w"

definition Warningln :: "lib \<Rightarrow> gval list \<Rightarrow> world \<Rightarrow> unit outcome" where
  "Warningln lb v w = Logger_output lb (defaultLogger w) eWarn 0 (Sprintln lb v) w"

definition Warningf :: "lib \<Rightarrow> string \<Rightarrow> gval list \<Rightarrow> world \<Rightarrow> unit outcome" where
  "Warningf lb format v w = Logger_output lb (defaultLogger w) eWarn 0 (Sprintf lb format v) w"

definition Error :: "lib \<Rightarrow> gval list \<Rightarrow> world \<Rightarrow> unit outcome" where
  "Error lb v w = Logger_output lb (defaultLogger w) eError 0 (Sprint lb v) w"

definition ErrorDepth :: "lib \<Rightarrow> int \<Rightarrow> gval list \<Rightarrow> world \<Rightarrow> unit outcome" where
  "ErrorDepth lb depth v w = Logger_output lb (defaultLogger w) eError depth (Sprint lb v) w"

definition Errorln :: "lib \<Rightarrow> gval list \<Rightarrow> world \<Rightarrow> unit outcome" where
  "Errorln lb v w = Logger_output lb (defaultLogger w) eError 0 (Sprintln lb v) w"

definition Errorf :: "lib \<Rightarrow> string \<Rightarrow> gval list \<Rightarrow> world \<Rightarrow> unit outcome" where
  "Errorf lb format v w = Logger_output lb (defaultLogger w) eError 0 (Sprintf lb format v) w"

definition Fatal :: "lib \<Rightarrow> gval list \<Rightarrow> world \<Rightarrow> unit outcome" where
  "Fatal lb v w =
     seq (Logger_output lb (defaultLogger w) eFatal 0 (Sprint lb v) w) (\<lambda>u w1.
     seq (Logger_Close (defaultLogger w1) w1) (\<lambda>u w2.
     os_Exit 1 w2))"

definition FatalDepth :: "lib \<Rightarrow> int \<Rightarrow> gval list \<Rightarrow> world \<Rightarrow> unit outcome" where
  "FatalDepth lb depth v w =
     seq (Logger_output lb (defaultLogger w) eFatal depth (Sprint lb v) w) (\<lambda>u w1.
     seq (Logger_Close (defaultLogger w1) w1) (\<lambda>u w2.
     os_Exit 1 w2))"

definition Fatalln :: "lib \<Rightarrow> gval list \<Rightarrow> world \<Rightarrow> unit outcome" where
  "Fatalln lb v w =
     seq (Logger_output lb (defaultLogger w) eFatal 0 (Sprintln lb v) w) (\<lambda>u w1.
     seq (Logger_Close (defaultLogger w1) w1) (\<lambda>u w2.
     os_Exit 1 w2))"

definition Fatalf :: "lib \<Rightarrow> string \<Rightarrow> gval list \<Rightarrow> world \<Rightarrow> unit outcome" where
  "Fatalf lb format v w =
     seq (Logger_output lb (defaultLogger w) eFatal 0 (Sprintf lb format v) w) (\<lambda>u w1.
     seq (Logger_Close (defaultLogger w1) w1) (\<lambda>u w2.
     os_Exit 1 w2))"

subsection \<open>xlog.go: Init\<close>

text \<open>
  \<^verbatim>\<open>func Init(name string, verbose, systemLog bool, logFile io.Writer) *Logger\<close>.

  \<open>system_endpoints\<close> is lines 73 to 77: the three \<^verbatim>\<open>io.Writer\<close> variables start as the nil
  interface; the assignment from \<^verbatim>\<open>setup\<close> stores each \<^verbatim>\<open>*syslog.Writer\<close> result in its
  interface variable, a nil pointer included.
\<close>

definition system_endpoints ::
  "string \<Rightarrow> bool \<Rightarrow> world \<Rightarrow> (writer \<times> writer \<times> writer \<times> string option) \<times> world" where
  "system_endpoints name systemLog w =
     (if systemLog then
        (case setup_syslog name w of
           ((il, wl, el, syslogErr), w') \<Rightarrow>
             ((Ptr TSyslog il, Ptr TSyslog wl, Ptr TSyslog el, syslogErr), w'))
      else ((NilWriter, NilWriter, NilWriter, None), w))"

text \<open>
  Lines 79 to 111: the three endpoint lists, the five loggers, the closers (the test
  \<^verbatim>\<open>c, ok := w.(io.Closer); ok && c != nil\<close> holds exactly when the assertion does) and the
  \<^verbatim>\<open>initialized\<close> flag.
\<close>

definition build_Logger :: "bool \<Rightarrow> writer \<Rightarrow> writer \<Rightarrow> writer \<Rightarrow> writer \<Rightarrow> Logger" where
  "build_Logger verbose logFile il wl el =
     (let iLogs = [logFile];
          wLogs = [logFile];
          eLogs = [logFile];
          iLogs = (if il \<noteq> NilWriter then iLogs @ [il] else iLogs);
          wLogs = (if wl \<noteq> NilWriter then wLogs @ [wl] else wLogs);
          eLogs = (if el \<noteq> NilWriter then eLogs @ [el] else eLogs);
          eLogs = eLogs @ [os_Stderr];
          iLogs = (if verbose then iLogs @ [os_Stdout] else iLogs);
          wLogs = (if verbose then wLogs @ [os_Stdout] else wLogs)
      in \<lparr>logFatal = log_New eLogs tagFatal flags,
          logError = log_New eLogs tagError flags,
          logWarn = log_New wLogs tagWarn flags,
          logInfo = log_New iLogs tagInfo flags,
          logTrace = log_New iLogs tagTrace flags,
          closers = filter is_Closer [logFile, il, wl, el],
          initialized = True\<rparr>)"

text \<open>
  Lines 113 to 123, under the mutex: the registry slot is replaced when the logger it
  points to is not initialized; a captured adapter error is logged with the package-level
  \<^verbatim>\<open>Error\<close>; the new pointer is returned.
\<close>

definition Init :: "lib \<Rightarrow> string \<Rightarrow> bool \<Rightarrow> bool \<Rightarrow> writer \<Rightarrow> world \<Rightarrow> addr outcome" where
  "Init lb name verbose systemLog logFile w =
     (case system_endpoints name systemLog w of
        ((il, wl, el, syslogErr), w1) \<Rightarrow>
          (case new_Logger (build_Logger verbose logFile il wl el) w1 of
             (l, w2) \<Rightarrow>
               locked (\<lambda>w3.
                 case heap w3 (defaultLogger w3) of
                   None \<Rightarrow> Panicked w3
                 | Some d \<Rightarrow>
                     (let w4 = (if \<not> initialized d then w3\<lparr>defaultLogger := l\<rparr> else w3)
                      in case syslogErr of
                           None \<Rightarrow> Returned l w4
                         | Some err \<Rightarrow> seq (Error lb [VError err] w4) (\<lambda>u w5. Returned l w5)))
                 w2))"

section \<open>Vocabulary of the properties\<close>

subsection \<open>Observing a run\<close>

text \<open>How a run ended.\<close>

fun returned :: "'a outcome \<Rightarrow> bool" where
  "returned (Returned a w) = True"
| "returned r = False"

fun panicked :: "'a outcome \<Rightarrow> bool" where
  "panicked (Panicked w) = True"
| "panicked r = False"

fun deadlocked :: "'a outcome \<Rightarrow> bool" where
  "deadlocked (Deadlocked w) = True"
| "deadlocked r = False"

text \<open>The kind of an event; \<open>EvCloseFailed\<close> is the line \<^verbatim>\<open>Close\<close> prints for a failed close.\<close>

fun is_write :: "event \<Rightarrow> bool" where
  "is_write (EvWrite x p) = True"
| "is_write e = False"

fun is_close :: "event \<Rightarrow> bool" where
  "is_close (EvWrite x p) = False"
| "is_close e = True"

text \<open>The endpoints whose \<^verbatim>\<open>Close\<close> method a trace calls, in order, once per call.\<close>

fun closed_by :: "event list \<Rightarrow> writer list" where
  "closed_by [] = []"
| "closed_by (EvClose c # es) = c # closed_by es"
| "closed_by (e # es) = closed_by es"

subsection \<open>What is assumed of endpoints and worlds\<close>

text \<open>
  An endpoint that takes every write, whatever happened before; one that refuses every
  write with an error or a short count; one whose \<^verbatim>\<open>Write\<close> never panics; one whose
  \<^verbatim>\<open>Close\<close> never panics.
\<close>

definition accepts :: "world \<Rightarrow> writer \<Rightarrow> bool" where
  "accepts w x = (x \<noteq> NilWriter \<and> (\<forall>t p. on_write w t x p = WOk))"

definition refuses :: "world \<Rightarrow> writer \<Rightarrow> bool" where
  "refuses w x = (x \<noteq> NilWriter \<and> (\<forall>t p. on_write w t x p = WShort \<or> (\<exists>e. on_write w t x p = WErr e)))"

definition write_safe :: "world \<Rightarrow> writer \<Rightarrow> bool" where
  "write_safe w x = (x \<noteq> NilWriter \<and> (\<forall>t p. on_write w t x p \<noteq> WPanic))"

definition close_safe :: "world \<Rightarrow> writer \<Rightarrow> bool" where
  "close_safe w c = (\<forall>t. on_close w t c \<noteq> CPanic)"

text \<open>
  No call is in progress (the mutex is free) and the default logger is an allocated
  object: the state between two calls of the package's functions.
\<close>

definition ready :: "world \<Rightarrow> bool" where
  "ready w = (\<not> logLock w \<and> heap w (defaultLogger w) \<noteq> None \<and> defaultLogger w < nextAddr w)"

text \<open>
  The three dials of the next \<^verbatim>\<open>setup\<close> succeed; every coming dial succeeds.
\<close>

definition registers :: "world \<Rightarrow> bool" where
  "registers w = list_all (\<lambda>r. r = None) (take 3 (dial w))"

definition always_registers :: "world \<Rightarrow> bool" where
  "always_registers w = list_all (\<lambda>r. r = None) (dial w)"


text \<open>The pointer holds a logger that \<^verbatim>\<open>Init\<close> finished: \<^verbatim>\<open>initialized\<close> is set.\<close>

definition usable :: "world \<Rightarrow> addr \<Rightarrow> bool" where
  "usable w l = (case heap w l of None \<Rightarrow> False | Some lg \<Rightarrow> initialized lg)"

subsection \<open>Reading the source's tables\<close>

text \<open>
  \<^verbatim>\<open>The endpoint, if present\<close>: the guard \<^verbatim>\<open>if il != nil { iLogs = append(iLogs, il) }\<close>
  of \<^verbatim>\<open>Init\<close>, as a list of no or one endpoint.
\<close>

definition present :: "writer \<Rightarrow> writer list" where
  "present x = (if x \<noteq> NilWriter then [x] else [])"

text \<open>
  The five declared levels, and the field of \<^verbatim>\<open>Logger\<close> that the \<^verbatim>\<open>switch\<close> of \<^verbatim>\<open>output\<close>
  picks for each.
\<close>

definition is_level :: "log_level \<Rightarrow> bool" where
  "is_level level = (level = eFatal \<or> level = eError \<or> level = eWarn \<or> level = eInfo \<or> level = eTrace)"

definition level_field :: "log_level \<Rightarrow> Logger \<Rightarrow> golog" where
  "level_field level =
     (if level = eTrace then logTrace
      else if level = eInfo then logInfo
      else if level = eWarn then logWarn
      else if level = eError then logError
      else logFatal)"

subsection \<open>Sequences of calls\<close>

text \<open>
  What a Fatal call does, step by step: the record goes through the Fatal logger and
  \<^verbatim>\<open>output\<close> returns, having added only \<^verbatim>\<open>Write\<close> calls \<open>ws\<close> to the trace; then \<^verbatim>\<open>Close\<close>
  runs on the same logger from that world and returns, having added only close events
  \<open>cs\<close>; the result \<open>r\<close> of the call is the exit with status 1 from the world after both.
\<close>

definition fatal_steps :: "lib \<Rightarrow> addr \<Rightarrow> int \<Rightarrow> string \<Rightarrow> world \<Rightarrow> unit outcome \<Rightarrow> bool" where
  "fatal_steps lb l depth txt w r =
     (\<exists>ws cs.
        Logger_output lb l eFatal depth txt w = Returned () (w\<lparr>trace := trace w @ ws\<rparr>)
      \<and> Logger_Close l (w\<lparr>trace := trace w @ ws\<rparr>) = Returned () (w\<lparr>trace := trace w @ ws @ cs\<rparr>)
      \<and> r = Exited 1 (w\<lparr>trace := trace w @ ws @ cs\<rparr>)
      \<and> list_all is_write ws \<and> list_all is_close cs)"

text \<open>
  A client that calls \<^verbatim>\<open>Init\<close> several times in a row, each call with its own arguments,
  and keeps the pointers it gets. It stops where a call does not return.
\<close>

type_synonym init_args = "string \<times> bool \<times> bool \<times> writer"

fun Init_calls :: "lib \<Rightarrow> init_args list \<Rightarrow> world \<Rightarrow> (addr list) outcome" where
  "Init_calls lb [] w = Returned [] w"
| "Init_calls lb ((name, verbose, systemLog, logFile) # cs) w =
     seq (Init lb name verbose systemLog logFile w) (\<lambda>l w1.
     seq (Init_calls lb cs w1) (\<lambda>ls w2.
     Returned (l # ls) w2))"

section \<open>Concrete runs\<close>

text \<open>
  A formatting library to run concrete inputs with: on one string or error argument
  \<open>Sprint\<close> and \<open>Sprintln\<close> print what \<^verbatim>\<open>fmt\<close> prints, \<open>Sprintf\<close> is right for a format
  with no verb, and the header is a fixed date, time and call site.
\<close>

fun text_of :: "gval \<Rightarrow> string" where
  "text_of (VString s) = s"
| "text_of (VError e) = e"

definition lib0 :: lib where
  "lib0 = \<lparr>Sprint = (\<lambda>v. concat (map text_of v)),
           Sprintln = (\<lambda>v. concat (map text_of v) @ [newline]),
           Sprintf = (\<lambda>format v. format),
           header = (\<lambda>flag calldepth. ''2026/01/02 03:04:05.000000 main.go:10: '')\<rparr>"

text \<open>
  The process when \<^verbatim>\<open>main\<close> is about to call \<^verbatim>\<open>Init\<close>: the bootstrap logger is at address
  3 and the caller has made its sink at address 4, a file (which has a \<^verbatim>\<open>Close\<close> method)
  or an in-memory buffer (which has none).
\<close>

definition main_world ::
  "(event list \<Rightarrow> writer \<Rightarrow> string \<Rightarrow> wres) \<Rightarrow> (event list \<Rightarrow> writer \<Rightarrow> cres) \<Rightarrow> string option list \<Rightarrow> world" where
  "main_world ow oc d = (process_start ow oc d)\<lparr>nextAddr := 5\<rparr>"

definition logfile :: writer where
  "logfile = Ptr TFile (Some 4)"

definition buffer :: writer where
  "buffer = Ptr (TUser ''*bytes.Buffer'' False) (Some 4)"

text \<open>The logger \<^verbatim>\<open>initialize\<close> builds.\<close>

definition bootstrap_logger :: Logger where
  "bootstrap_logger =
     \<lparr>logFatal = log_New [os_Stderr] (initText @ tagFatal) flags,
      logError = log_New [os_Stderr] (initText @ tagError) flags,
      logWarn = log_New [os_Stderr] (initText @ tagWarn) flags,
      logInfo = log_New [os_Stderr] (initText @ tagInfo) flags,
      logTrace = log_New [os_Stderr] (initText @ tagTrace) flags,
      closers = [],
      initialized = False\<rparr>"

text \<open>
  Four such processes: every endpoint works and the system log is there; the caller's
  file refuses every write; a closed endpoint refuses writes and a second close, as
  \<^verbatim>\<open>*os.File\<close> does; the system log cannot be reached.
\<close>

definition healthy_world :: world where
  "healthy_world = main_world (\<lambda>t x p. WOk) (\<lambda>t c. COk) []"


definition realistic_world :: world where
  "realistic_world =
     main_world (\<lambda>t x p. if EvClose x \<in> set t then WErr ''file already closed'' else WOk)
       (\<lambda>t c. if EvClose c \<in> set t then CErr ''file already closed'' else COk) []"

definition no_syslog_world :: world where
  "no_syslog_world = main_world (\<lambda>t x p. WOk) (\<lambda>t c. COk) [Some ''Unix syslog delivery error'']"

text \<open>
  The logger of \<^verbatim>\<open>Init("app", true, true, logfile)\<close> in the healthy process, two more
  \<^verbatim>\<open>Init\<close> calls, and the world that first call leaves.
\<close>

definition demo_logger :: Logger where
  "demo_logger = build_Logger True logfile (Ptr TSyslog (Some 5)) (Ptr TSyslog (Some 6)) (Ptr TSyslog (Some 7))"

definition demo_calls :: "init_args list" where
  "demo_calls = [(''lib'', True, True, buffer), (''again'', False, False, logfile)]"

definition serving_world :: world where
  "serving_world = final (Init lib0 ''app'' True True logfile healthy_world)"


definition close_twice_run :: "unit outcome" where
  "close_twice_run =
     seq (Init lib0 ''app'' False False logfile realistic_world) (\<lambda>l w.
     seq (Logger_Close l w) (\<lambda>u w.
     Logger_Close l w))"

definition use_after_close_run :: "unit outcome" where
  "use_after_close_run =
     seq (Init lib0 ''app'' False False logfile realistic_world) (\<lambda>l w.
     seq (Logger_Close l w) (\<lambda>u w.
     Logger_Info lib0 l [VString ''lost''] w))"

definition use_after_close_buffer_run :: "unit outcome" where
  "use_after_close_buffer_run =
     seq (Init lib0 ''app'' False False buffer healthy_world) (\<lambda>l w.
     seq (Logger_Close l w) (\<lambda>u w.
     Logger_Info lib0 l [VString ''kept''] w))"

definition registration_fails_run :: "addr outcome" where
  "registration_fails_run = Init lib0 ''app'' False True logfile no_syslog_world"

definition registration_off_run :: "addr outcome" where
  "registration_off_run = Init lib0 ''app'' False False logfile no_syslog_world"

section \<open>Auxiliary lemmas\<close>

subsection \<open>The fan-out write and the close loop\<close>

lemma record_event_simps [simp]:
  "trace (record_event e w) = trace w @ [e]"
  "on_write (record_event e w) = on_write w"
  "on_close (record_event e w) = on_close w"
  "heap (record_event e w) = heap w"
  "logLock (record_event e w) = logLock w"
  "defaultLogger (record_event e w) = defaultLogger w"
  "nextAddr (record_event e w) = nextAddr w"
  "dial (record_event e w) = dial w"
  by (simp_all add: record_event_def)

lemma accepts_record_event [simp]: "accepts (record_event e w) x = accepts w x"
  by (simp add: accepts_def)

lemma refuses_record_event [simp]: "refuses (record_event e w) x = refuses w x"
  by (simp add: refuses_def)

lemma write_safe_record_event [simp]: "write_safe (record_event e w) x = write_safe w x"
  by (simp add: write_safe_def)

lemma close_safe_record_event [simp]: "close_safe (record_event e w) x = close_safe w x"
  by (simp add: close_safe_def)

lemma pred_upd_simps [simp]:
  "accepts (w\<lparr>logLock := b\<rparr>) x = accepts w x"
  "accepts (w\<lparr>trace := t\<rparr>) x = accepts w x"
  "refuses (w\<lparr>logLock := b\<rparr>) x = refuses w x"
  "refuses (w\<lparr>trace := t\<rparr>) x = refuses w x"
  "write_safe (w\<lparr>logLock := b\<rparr>) x = write_safe w x"
  "write_safe (w\<lparr>trace := t\<rparr>) x = write_safe w x"
  "close_safe (w\<lparr>logLock := b\<rparr>) x = close_safe w x"
  "close_safe (w\<lparr>trace := t\<rparr>) x = close_safe w x"
  by (simp_all add: accepts_def refuses_def write_safe_def close_safe_def)





lemma multiWriter_safe:
  "\<forall>x\<in>set xs. write_safe w x \<Longrightarrow>
   \<exists>r evs. multiWriter_Write xs p w = Returned r (w\<lparr>trace := trace w @ evs\<rparr>)
      \<and> (\<forall>e\<in>set evs. is_write e)"
proof (induction xs arbitrary: w)
  case Nil
  show ?case by (rule exI [of _ None], rule exI [of _ "[]"]) simp
next
  case (Cons x xs)
  let ?w1 = "record_event (EvWrite x p) w"
  have sx: "write_safe w x" using Cons.prems by simp
  have rest: "\<forall>y\<in>set xs. write_safe ?w1 y" using Cons.prems by simp
  from Cons.IH [OF rest] obtain r evs where
    ih: "multiWriter_Write xs p ?w1 = Returned r (?w1\<lparr>trace := trace ?w1 @ evs\<rparr>)"
    and ws: "\<forall>e\<in>set evs. is_write e" by blast
  show ?case
  proof (cases "on_write w (trace w) x p")
    case WOk
    then have "multiWriter_Write (x # xs) p w = Returned r (w\<lparr>trace := trace w @ (EvWrite x p # evs)\<rparr>)"
      using sx ih by (simp add: endpoint_Write_def write_safe_def record_event_def)
    moreover have "\<forall>e\<in>set (EvWrite x p # evs). is_write e" using ws by simp
    ultimately show ?thesis by blast
  next
    case WShort
    then have "multiWriter_Write (x # xs) p w = Returned (Some ''short write'') (w\<lparr>trace := trace w @ [EvWrite x p]\<rparr>)"
      using sx by (simp add: endpoint_Write_def write_safe_def record_event_def)
    moreover have "\<forall>e\<in>set [EvWrite x p]. is_write e" by simp
    ultimately show ?thesis by blast
  next
    case (WErr e)
    then have "multiWriter_Write (x # xs) p w = Returned (Some e) (w\<lparr>trace := trace w @ [EvWrite x p]\<rparr>)"
      using sx by (simp add: endpoint_Write_def write_safe_def record_event_def)
    moreover have "\<forall>e\<in>set [EvWrite x p]. is_write e" by simp
    ultimately show ?thesis by blast
  next
    case WPanic
    then show ?thesis using sx by (simp add: write_safe_def)
  qed
qed

lemma closed_by_append [simp]: "closed_by (xs @ ys) = closed_by xs @ closed_by ys"
  by (induction xs rule: closed_by.induct) simp_all


lemma close_each_safe:
  "\<forall>c\<in>set cs. close_safe w c \<Longrightarrow>
   \<exists>evs. close_each cs w = Returned () (w\<lparr>trace := trace w @ evs\<rparr>)
      \<and> closed_by evs = cs \<and> (\<forall>e\<in>set evs. is_close e)"
proof (induction cs arbitrary: w)
  case Nil
  show ?case by (rule exI [of _ "[]"]) simp
next
  case (Cons c cs)
  have sc: "close_safe w c" using Cons.prems by simp
  show ?case
  proof (cases "on_close w (trace w) c")
    case COk
    let ?w1 = "record_event (EvClose c) w"
    have "\<forall>d\<in>set cs. close_safe ?w1 d" using Cons.prems by simp
    from Cons.IH [OF this] obtain evs where
      ih: "close_each cs ?w1 = Returned () (?w1\<lparr>trace := trace ?w1 @ evs\<rparr>)"
      and cb: "closed_by evs = cs" and ic: "\<forall>e\<in>set evs. is_close e" by blast
    have "close_each (c # cs) w = Returned () (w\<lparr>trace := trace w @ (EvClose c # evs)\<rparr>)"
      using COk ih by (simp add: record_event_def)
    moreover have "closed_by (EvClose c # evs) = c # cs" using cb by simp
    moreover have "\<forall>e\<in>set (EvClose c # evs). is_close e" using ic by simp
    ultimately show ?thesis by blast
  next
    case (CErr e)
    let ?w1 = "record_event (EvCloseFailed c e) (record_event (EvClose c) w)"
    have "\<forall>d\<in>set cs. close_safe ?w1 d" using Cons.prems by simp
    from Cons.IH [OF this] obtain evs where
      ih: "close_each cs ?w1 = Returned () (?w1\<lparr>trace := trace ?w1 @ evs\<rparr>)"
      and cb: "closed_by evs = cs" and ic: "\<forall>e\<in>set evs. is_close e" by blast
    have "close_each (c # cs) w = Returned () (w\<lparr>trace := trace w @ (EvClose c # EvCloseFailed c e # evs)\<rparr>)"
      using CErr ih by (simp add: record_event_def)
    moreover have "closed_by (EvClose c # EvCloseFailed c e # evs) = c # cs" using cb by simp
    moreover have "\<forall>e\<in>set (EvClose c # EvCloseFailed c e # evs). is_close e" using ic by simp
    ultimately show ?thesis by blast
  next
    case CPanic
    then show ?thesis using sc by (simp add: close_safe_def)
  qed
qed

subsection \<open>output and Close under the mutex\<close>

lemma locked_trace:
  assumes "\<not> logLock w"
    and "body (w\<lparr>logLock := True\<rparr>) = Returned a (w\<lparr>logLock := True, trace := t\<rparr>)"
  shows "locked body w = Returned a (w\<lparr>trace := t\<rparr>)"
  using assms by (cases w) (simp add: locked_def)


lemma output_to_safe:
  assumes "heap w l = Some lg" and "\<forall>x\<in>set (lg_out (field lg)). write_safe w x"
  shows "\<exists>evs. output_to lb l field cd txt w = Returned () (w\<lparr>trace := trace w @ evs\<rparr>)
           \<and> (\<forall>e\<in>set evs. is_write e)"
proof -
  from multiWriter_safe [OF assms(2), of "format_line lb (field lg) cd txt"]
  obtain r evs where "multiWriter_Write (lg_out (field lg)) (format_line lb (field lg) cd txt) w
        = Returned r (w\<lparr>trace := trace w @ evs\<rparr>)" and "\<forall>e\<in>set evs. is_write e"
    by blast
  then show ?thesis using assms(1)
    by (intro exI [of _ evs]) (simp add: output_to_def log_Output_def)
qed

lemma Logger_output_body:
  "is_level level \<Longrightarrow>
   Logger_output lb l level depth txt = locked (output_to lb l (level_field level) (3 + depth) txt)"
  by (auto simp: Logger_output_def level_field_def is_level_def fun_eq_iff
      eFatal_def eError_def eWarn_def eInfo_def eTrace_def intro!: arg_cong [where f = "\<lambda>b. locked b w" for w])


lemma Logger_output_safe:
  assumes "\<not> logLock w" and "heap w l = Some lg" and "is_level level"
    and "\<forall>x\<in>set (lg_out (level_field level lg)). write_safe w x"
  shows "\<exists>evs. Logger_output lb l level depth txt w = Returned () (w\<lparr>trace := trace w @ evs\<rparr>)
           \<and> (\<forall>e\<in>set evs. is_write e)"
proof -
  have "\<exists>evs. output_to lb l (level_field level) (3 + depth) txt (w\<lparr>logLock := True\<rparr>) =
     Returned () (w\<lparr>logLock := True\<rparr>\<lparr>trace := trace (w\<lparr>logLock := True\<rparr>) @ evs\<rparr>) \<and> (\<forall>e\<in>set evs. is_write e)"
    using assms(2,4) by (intro output_to_safe [where lg = lg]) simp_all
  then obtain evs where
    b: "output_to lb l (level_field level) (3 + depth) txt (w\<lparr>logLock := True\<rparr>) =
     Returned () (w\<lparr>logLock := True, trace := trace w @ evs\<rparr>)" and ws: "\<forall>e\<in>set evs. is_write e"
    by auto
  from locked_trace [where body = "output_to lb l (level_field level) (3 + depth) txt", OF assms(1) b] ws
  show ?thesis
    by (intro exI [of _ evs]) (simp add: Logger_output_body [OF assms(3)])
qed

lemma Logger_Close_safe:
  assumes "\<not> logLock w" and "heap w l = Some lg" and "\<forall>c\<in>set (closers lg). close_safe w c"
  shows "\<exists>evs. Logger_Close l w = Returned () (w\<lparr>trace := trace w @ evs\<rparr>)
           \<and> closed_by evs = (if initialized lg then closers lg else []) \<and> (\<forall>e\<in>set evs. is_close e)"
proof (cases "initialized lg")
  case False
  have "(case heap (w\<lparr>logLock := True\<rparr>) l of None \<Rightarrow> Panicked (w\<lparr>logLock := True\<rparr>)
         | Some lg \<Rightarrow> if \<not> initialized lg then Returned () (w\<lparr>logLock := True\<rparr>) else close_each (closers lg) (w\<lparr>logLock := True\<rparr>))
        = Returned () (w\<lparr>logLock := True, trace := trace w @ []\<rparr>)"
    using False assms(2) by simp
  from locked_trace [where body = "\<lambda>w. case heap w l of None \<Rightarrow> Panicked w
         | Some lg \<Rightarrow> if \<not> initialized lg then Returned () w else close_each (closers lg) w", OF assms(1) this]
  show ?thesis using False
    by (intro exI [of _ "[]"]) (simp add: Logger_Close_def)
next
  case True
  have "\<forall>c\<in>set (closers lg). close_safe (w\<lparr>logLock := True\<rparr>) c" using assms(3) by simp
  from close_each_safe [OF this] obtain evs where
    ce: "close_each (closers lg) (w\<lparr>logLock := True\<rparr>) = Returned () (w\<lparr>logLock := True, trace := trace w @ evs\<rparr>)"
    and cb: "closed_by evs = closers lg" and ic: "\<forall>e\<in>set evs. is_close e"
    by auto
  have "(case heap (w\<lparr>logLock := True\<rparr>) l of None \<Rightarrow> Panicked (w\<lparr>logLock := True\<rparr>)
         | Some lg \<Rightarrow> if \<not> initialized lg then Returned () (w\<lparr>logLock := True\<rparr>) else close_each (closers lg) (w\<lparr>logLock := True\<rparr>))
        = Returned () (w\<lparr>logLock := True, trace := trace w @ evs\<rparr>)"
    using True assms(2) ce by simp
  from locked_trace [where body = "\<lambda>w. case heap w l of None \<Rightarrow> Panicked w
         | Some lg \<Rightarrow> if \<not> initialized lg then Returned () w else close_each (closers lg) w", OF assms(1) this]
  show ?thesis using True cb ic
    by (intro exI [of _ evs]) (simp add: Logger_Close_def)
qed

subsection \<open>Fatal\<close>

lemma fatal_steps_holds:
  assumes "\<not> logLock w" and "heap w l = Some lg"
    and "\<forall>x\<in>set (lg_out (logFatal lg)). write_safe w x"
    and "\<forall>c\<in>set (closers lg). close_safe w c"
  shows "fatal_steps lb l depth txt w
     (seq (Logger_output lb l eFatal depth txt w) (\<lambda>u w1. seq (Logger_Close l w1) (\<lambda>u w2. os_Exit 1 w2)))"
proof -
  have lv: "is_level eFatal" by (simp add: is_level_def)
  have lf: "level_field eFatal = logFatal"
    by (simp add: level_field_def eFatal_def eTrace_def eInfo_def eWarn_def eError_def)
  from Logger_output_safe [OF assms(1,2) lv, of lb depth "txt"] assms(3) obtain ws where
    o: "Logger_output lb l eFatal depth txt w = Returned () (w\<lparr>trace := trace w @ ws\<rparr>)"
    and ws: "\<forall>e\<in>set ws. is_write e" by (auto simp: lf)
  let ?w1 = "w\<lparr>trace := trace w @ ws\<rparr>"
  have "\<not> logLock ?w1" "heap ?w1 l = Some lg" "\<forall>c\<in>set (closers lg). close_safe ?w1 c"
    using assms by simp_all
  from Logger_Close_safe [OF this] obtain cs where
    c: "Logger_Close l ?w1 = Returned () (w\<lparr>trace := trace w @ ws @ cs\<rparr>)"
    and cs: "\<forall>e\<in>set cs. is_close e" by auto
  show ?thesis
    unfolding fatal_steps_def
    apply (rule exI [of _ ws], rule exI [of _ cs])
    using o c ws cs apply (simp add: os_Exit_def list_all_iff)
    done
qed

lemma fatal_steps_default:
  assumes "\<not> logLock w" and "heap w (defaultLogger w) = Some lg"
    and "\<forall>x\<in>set (lg_out (logFatal lg)). write_safe w x"
    and "\<forall>c\<in>set (closers lg). close_safe w c"
  shows "fatal_steps lb (defaultLogger w) depth msg w
     (seq (Logger_output lb (defaultLogger w) eFatal depth msg w)
        (\<lambda>u w1. seq (Logger_Close (defaultLogger w1) w1) (\<lambda>u w2. os_Exit 1 w2)))"
proof -
  have lv: "is_level eFatal" by (simp add: is_level_def)
  have lf: "level_field eFatal = logFatal"
    by (simp add: level_field_def eFatal_def eTrace_def eInfo_def eWarn_def eError_def)
  from Logger_output_safe [OF assms(1,2) lv, of lb depth msg] assms(3) obtain ws where
    o: "Logger_output lb (defaultLogger w) eFatal depth msg w = Returned () (w\<lparr>trace := trace w @ ws\<rparr>)"
    by (auto simp: lf)
  from fatal_steps_holds [OF assms, of lb depth msg] show ?thesis
    by (simp add: o)
qed

subsection \<open>The adapter\<close>

lemma syslog_New_cases:
  "syslog_New pr tg w =
     (case dial w of
        [] \<Rightarrow> (Inr (nextAddr w), w\<lparr>nextAddr := Suc (nextAddr w), dial := []\<rparr>)
      | None # rest \<Rightarrow> (Inr (nextAddr w), w\<lparr>nextAddr := Suc (nextAddr w), dial := rest\<rparr>)
      | Some e # rest \<Rightarrow> (Inl e, w\<lparr>dial := rest\<rparr>))"
  by (simp add: syslog_New_def split: list.splits option.splits)

lemma setup_syslog_registers:
  "registers w \<Longrightarrow>
   setup_syslog src w =
     ((Some (nextAddr w), Some (Suc (nextAddr w)), Some (Suc (Suc (nextAddr w))), None),
      w\<lparr>nextAddr := Suc (Suc (Suc (nextAddr w))), dial := drop 3 (dial w)\<rparr>)"
  by (cases w) (auto simp: registers_def setup_syslog_def syslog_New_cases numeral_3_eq_3
      split: list.splits option.splits)

lemma setup_syslog_fails:
  "\<not> registers w \<Longrightarrow>
   \<exists>e n ds. setup_syslog src w = ((None, None, None, Some e), w\<lparr>nextAddr := n, dial := ds\<rparr>)
      \<and> nextAddr w \<le> n"
  apply (cases w)
  apply (simp add: registers_def setup_syslog_def syslog_New_cases numeral_3_eq_3
      split: list.splits option.splits)
  apply (intro conjI impI allI)
  apply (auto intro: exI world.equality)
  done

lemma always_registers_registers: "always_registers w \<Longrightarrow> registers w"
  by (auto simp: always_registers_def registers_def list_all_iff dest: in_set_takeD)

lemma system_endpoints_off:
  "system_endpoints name False w = ((NilWriter, NilWriter, NilWriter, None), w)"
  by (simp add: system_endpoints_def)

lemma system_endpoints_registers:
  "registers w \<Longrightarrow>
   system_endpoints name True w =
     ((Ptr TSyslog (Some (nextAddr w)), Ptr TSyslog (Some (Suc (nextAddr w))),
       Ptr TSyslog (Some (Suc (Suc (nextAddr w)))), None),
      w\<lparr>nextAddr := Suc (Suc (Suc (nextAddr w))), dial := drop 3 (dial w)\<rparr>)"
  by (simp add: system_endpoints_def setup_syslog_registers)

lemma system_endpoints_fails:
  "\<not> registers w \<Longrightarrow>
   \<exists>e n ds. system_endpoints name True w =
     ((Ptr TSyslog None, Ptr TSyslog None, Ptr TSyslog None, Some e), w\<lparr>nextAddr := n, dial := ds\<rparr>)
      \<and> nextAddr w \<le> n"
proof -
  assume "\<not> registers w"
  from setup_syslog_fails [OF this, of name] obtain e n ds where
    "setup_syslog name w = ((None, None, None, Some e), w\<lparr>nextAddr := n, dial := ds\<rparr>)"
    and "nextAddr w \<le> n" by blast
  then have "system_endpoints name True w =
     ((Ptr TSyslog None, Ptr TSyslog None, Ptr TSyslog None, Some e), w\<lparr>nextAddr := n, dial := ds\<rparr>)
      \<and> nextAddr w \<le> n"
    by (simp add: system_endpoints_def)
  then show ?thesis by blast
qed

lemma system_endpoints_returns:
  assumes "registers w \<or> \<not> systemLog"
    and "system_endpoints name systemLog w = ((il, wl, el, err), w1)"
  shows "err = None
     \<and> w1 = (if systemLog then w\<lparr>nextAddr := Suc (Suc (Suc (nextAddr w))), dial := drop 3 (dial w)\<rparr> else w)
     \<and> (if systemLog
         then il = Ptr TSyslog (Some (nextAddr w)) \<and> wl = Ptr TSyslog (Some (Suc (nextAddr w)))
            \<and> el = Ptr TSyslog (Some (Suc (Suc (nextAddr w))))
         else il = NilWriter \<and> wl = NilWriter \<and> el = NilWriter)"
proof (cases systemLog)
  case True
  then have "registers w" using assms(1) by simp
  from system_endpoints_registers [OF this, of name] assms(2) True show ?thesis by simp
next
  case False
  then show ?thesis using assms(2) by (simp add: system_endpoints_off)
qed

subsection \<open>Init\<close>

lemma build_Logger_simps [simp]:
  "lg_out (logFatal (build_Logger verbose logFile il wl el)) = [logFile] @ present el @ [os_Stderr]"
  "lg_out (logError (build_Logger verbose logFile il wl el)) = [logFile] @ present el @ [os_Stderr]"
  "lg_out (logWarn (build_Logger verbose logFile il wl el)) = [logFile] @ present wl @ (if verbose then [os_Stdout] else [])"
  "lg_out (logInfo (build_Logger verbose logFile il wl el)) = [logFile] @ present il @ (if verbose then [os_Stdout] else [])"
  "lg_out (logTrace (build_Logger verbose logFile il wl el)) = [logFile] @ present il @ (if verbose then [os_Stdout] else [])"
  "lg_prefix (logFatal (build_Logger verbose logFile il wl el)) = tagFatal"
  "lg_prefix (logError (build_Logger verbose logFile il wl el)) = tagError"
  "lg_prefix (logWarn (build_Logger verbose logFile il wl el)) = tagWarn"
  "lg_prefix (logInfo (build_Logger verbose logFile il wl el)) = tagInfo"
  "lg_prefix (logTrace (build_Logger verbose logFile il wl el)) = tagTrace"
  "lg_flag (logFatal (build_Logger verbose logFile il wl el)) = flags"
  "lg_flag (logError (build_Logger verbose logFile il wl el)) = flags"
  "lg_flag (logWarn (build_Logger verbose logFile il wl el)) = flags"
  "lg_flag (logInfo (build_Logger verbose logFile il wl el)) = flags"
  "lg_flag (logTrace (build_Logger verbose logFile il wl el)) = flags"
  "closers (build_Logger verbose logFile il wl el) = filter is_Closer [logFile, il, wl, el]"
  "initialized (build_Logger verbose logFile il wl el) = True"
  by (simp_all add: build_Logger_def log_New_def present_def Let_def)

lemma Init_after_endpoints:
  assumes "system_endpoints name systemLog w = ((il, wl, el, None), w1)"
    and "\<not> logLock w1" and "heap w1 (defaultLogger w1) = Some d"
    and "defaultLogger w1 < nextAddr w1"
  shows "Init lb name verbose systemLog logFile w =
     Returned (nextAddr w1)
       (w1\<lparr>defaultLogger := (if initialized d then defaultLogger w1 else nextAddr w1),
           heap := (heap w1)(nextAddr w1 := Some (build_Logger verbose logFile il wl el)),
           nextAddr := Suc (nextAddr w1)\<rparr>)"
  using assms by (cases w1) (simp add: Init_def new_Logger_def locked_def)

lemma Init_after_failed_endpoints:
  assumes "system_endpoints name systemLog w = ((il, wl, el, Some e), w1)"
    and "\<not> logLock w1" and "heap w1 (defaultLogger w1) = Some d"
    and "defaultLogger w1 < nextAddr w1"
  shows "Init lb name verbose systemLog logFile w =
     Deadlocked
       (w1\<lparr>logLock := True,
           defaultLogger := (if initialized d then defaultLogger w1 else nextAddr w1),
           heap := (heap w1)(nextAddr w1 := Some (build_Logger verbose logFile il wl el)),
           nextAddr := Suc (nextAddr w1)\<rparr>)"
  using assms by (cases w1) (simp add: Init_def new_Logger_def locked_def Error_def Logger_output_def)

lemma Init_returns:
  assumes "ready w" and "registers w \<or> \<not> systemLog"
    and "system_endpoints name systemLog w = ((il, wl, el, err), w1)"
    and "heap w (defaultLogger w) = Some d"
  shows "Init lb name verbose systemLog logFile w =
     Returned (nextAddr w1)
       (w1\<lparr>defaultLogger := (if initialized d then defaultLogger w else nextAddr w1),
           heap := (heap w)(nextAddr w1 := Some (build_Logger verbose logFile il wl el)),
           nextAddr := Suc (nextAddr w1)\<rparr>)"
proof -
  from system_endpoints_returns [OF assms(2,3)] have
    e: "err = None" and
    w1: "w1 = (if systemLog then w\<lparr>nextAddr := Suc (Suc (Suc (nextAddr w))), dial := drop 3 (dial w)\<rparr> else w)"
    by simp_all
  have a: "\<not> logLock w1" "heap w1 (defaultLogger w1) = Some d" "defaultLogger w1 < nextAddr w1"
    "heap w1 = heap w" "defaultLogger w1 = defaultLogger w"
    using assms(1,4) w1 by (auto simp: ready_def)
  from Init_after_endpoints [OF assms(3) [unfolded e] a(1,2,3), of lb verbose logFile] a(4,5)
  show ?thesis by simp
qed


lemma Init_deadlocks_when_registration_fails:
  assumes "ready w" and "\<not> registers w"
  shows "deadlocked (Init lb name verbose True logFile w)
     \<and> trace (final (Init lb name verbose True logFile w)) = trace w
     \<and> logLock (final (Init lb name verbose True logFile w))"
proof -
  from system_endpoints_fails [OF assms(2), of name] obtain e n ds where
    se: "system_endpoints name True w =
      ((Ptr TSyslog None, Ptr TSyslog None, Ptr TSyslog None, Some e), w\<lparr>nextAddr := n, dial := ds\<rparr>)"
    and n: "nextAddr w \<le> n" by blast
  let ?w1 = "w\<lparr>nextAddr := n, dial := ds\<rparr>"
  from assms(1) obtain d where d: "heap ?w1 (defaultLogger ?w1) = Some d"
    by (auto simp: ready_def)
  have l: "\<not> logLock ?w1" and a: "defaultLogger ?w1 < nextAddr ?w1"
    using assms(1) n by (simp_all add: ready_def)
  from Init_after_failed_endpoints [OF se l d a, of lb verbose logFile]
  show ?thesis by simp
qed

lemma Init_step:
  assumes "ready w" and "always_registers w" and "heap w (defaultLogger w) = Some d"
  shows "\<exists>l w' lg. Init lb name verbose systemLog logFile w = Returned l w'
     \<and> ready w' \<and> always_registers w' \<and> nextAddr w \<le> l \<and> l < nextAddr w'
     \<and> heap w' l = Some lg \<and> initialized lg
     \<and> (\<forall>a. a \<noteq> l \<longrightarrow> heap w' a = heap w a)
     \<and> defaultLogger w' = (if initialized d then defaultLogger w else l)"
proof -
  obtain il wl el err w1 where se: "system_endpoints name systemLog w = ((il, wl, el, err), w1)"
    by (metis prod.exhaust)
  have r: "registers w \<or> \<not> systemLog" using assms(2) by (simp add: always_registers_registers)
  note i = Init_returns [OF assms(1) r se assms(3), of lb verbose logFile]
  from system_endpoints_returns [OF r se] have
    w1: "w1 = (if systemLog then w\<lparr>nextAddr := Suc (Suc (Suc (nextAddr w))), dial := drop 3 (dial w)\<rparr> else w)"
    by simp
  have ar: "always_registers w1" using assms(2) w1
    by (auto simp: always_registers_def list_all_iff dest: in_set_dropD)
  have n: "nextAddr w \<le> nextAddr w1" using w1 by simp
  have dl: "defaultLogger w < nextAddr w" using assms(1) by (simp add: ready_def)
  have ll: "logLock w1 = logLock w" using w1 by simp
  show ?thesis
    apply (rule exI [of _ "nextAddr w1"])
    apply (rule exI [of _ "w1\<lparr>defaultLogger := (if initialized d then defaultLogger w else nextAddr w1),
           heap := (heap w)(nextAddr w1 := Some (build_Logger verbose logFile il wl el)),
           nextAddr := Suc (nextAddr w1)\<rparr>"])
    apply (rule exI [of _ "build_Logger verbose logFile il wl el"])
    using i ar n dl ll assms(1,3) apply (auto simp: ready_def always_registers_def)
    done
qed

lemma Init_calls_keep:
  assumes "ready w" and "always_registers w" and "heap w (defaultLogger w) = Some d"
    and "initialized d"
  shows "\<exists>ls w'. Init_calls lb cs w = Returned ls w' \<and> length ls = length cs \<and> distinct ls
     \<and> (\<forall>p\<in>set ls. nextAddr w \<le> p \<and> usable w' p)
     \<and> defaultLogger w' = defaultLogger w
     \<and> (\<forall>a<nextAddr w. heap w' a = heap w a)"
  using assms
proof (induction cs arbitrary: w)
  case Nil
  then show ?case by simp
next
  case (Cons c cs)
  obtain name verbose systemLog logFile where c: "c = (name, verbose, systemLog, logFile)"
    by (metis prod.exhaust)
  from Init_step [OF Cons.prems(1,2,3), of lb name verbose systemLog logFile]
  obtain l w1 lg where
    i: "Init lb name verbose systemLog logFile w = Returned l w1"
    and r1: "ready w1" and a1: "always_registers w1"
    and ge: "nextAddr w \<le> l" and lt: "l < nextAddr w1"
    and hl: "heap w1 l = Some lg" and il: "initialized lg"
    and fr: "\<forall>a. a \<noteq> l \<longrightarrow> heap w1 a = heap w a"
    and df: "defaultLogger w1 = defaultLogger w"
    using Cons.prems(4) by auto
  have dl: "defaultLogger w < nextAddr w" using Cons.prems(1) by (simp add: ready_def)
  have hd: "heap w1 (defaultLogger w1) = Some d" using fr df dl ge Cons.prems(3) by simp
  from Cons.IH [OF r1 a1 hd Cons.prems(4)] obtain ls w' where
    ih: "Init_calls lb cs w1 = Returned ls w'" and len: "length ls = length cs"
    and dis: "distinct ls" and mem: "\<forall>p\<in>set ls. nextAddr w1 \<le> p \<and> usable w' p"
    and df': "defaultLogger w' = defaultLogger w1"
    and fr': "\<forall>a<nextAddr w1. heap w' a = heap w1 a" by blast
  have "Init_calls lb (c # cs) w = Returned (l # ls) w'" using i ih by (simp add: c)
  moreover have "distinct (l # ls)" using dis mem lt by auto
  moreover have "usable w' l" using fr' lt hl il by (simp add: usable_def)
  moreover have "\<forall>p\<in>set ls. nextAddr w \<le> p" using mem ge lt by auto
  moreover have "\<forall>a<nextAddr w. heap w' a = heap w a" using fr fr' ge lt by auto
  ultimately show ?case using len mem df df' ge by auto
qed

subsection \<open>The concrete worlds\<close>

lemma main_world_fields [simp]:
  "logLock (main_world ow oc d) = False"
  "defaultLogger (main_world ow oc d) = 3"
  "nextAddr (main_world ow oc d) = 5"
  "trace (main_world ow oc d) = []"
  "on_write (main_world ow oc d) = ow"
  "on_close (main_world ow oc d) = oc"
  "dial (main_world ow oc d) = d"
  "heap (main_world ow oc d) 3 = Some
        \<lparr>logFatal = log_New [os_Stderr] (initText @ tagFatal) flags,
         logError = log_New [os_Stderr] (initText @ tagError) flags,
         logWarn = log_New [os_Stderr] (initText @ tagWarn) flags,
         logInfo = log_New [os_Stderr] (initText @ tagInfo) flags,
         logTrace = log_New [os_Stderr] (initText @ tagTrace) flags,
         closers = [],
         initialized = False\<rparr>"
  by (simp_all add: main_world_def process_start_def initialize_def new_Logger_def)

lemma ready_main_world: "ready (main_world ow oc d)"
  by (simp add: ready_def)

lemma Init_main_world_off:
  "Init lb name verbose False logFile (main_world ow oc d) =
     Returned 5 ((main_world ow oc d)\<lparr>defaultLogger := 5,
        heap := (heap (main_world ow oc d))(5 := Some (build_Logger verbose logFile NilWriter NilWriter NilWriter)),
        nextAddr := 6\<rparr>)"
proof -
  have r: "registers (main_world ow oc d) \<or> \<not> False" by simp
  have h: "heap (main_world ow oc d) (defaultLogger (main_world ow oc d)) = Some
        \<lparr>logFatal = log_New [os_Stderr] (initText @ tagFatal) flags,
         logError = log_New [os_Stderr] (initText @ tagError) flags,
         logWarn = log_New [os_Stderr] (initText @ tagWarn) flags,
         logInfo = log_New [os_Stderr] (initText @ tagInfo) flags,
         logTrace = log_New [os_Stderr] (initText @ tagTrace) flags,
         closers = [],
         initialized = False\<rparr>" by simp
  from Init_returns [OF ready_main_world r system_endpoints_off h, of lb name verbose logFile]
  show ?thesis by simp
qed

lemma healthy_world_fields [simp]:
  "logLock healthy_world = False"
  "defaultLogger healthy_world = 3"
  "nextAddr healthy_world = 5"
  "trace healthy_world = []"
  "on_write healthy_world = (\<lambda>t x p. WOk)"
  "on_close healthy_world = (\<lambda>t c. COk)"
  "dial healthy_world = []"
  by (simp_all add: healthy_world_def)

lemma ready_healthy_world: "ready healthy_world"
  by (simp add: healthy_world_def ready_main_world)

lemma registers_healthy_world: "registers healthy_world"
  by (simp add: registers_def)

lemma Init_healthy_world_on:
  "Init lb name verbose True logFile healthy_world =
     Returned 8 (healthy_world\<lparr>defaultLogger := 8,
        heap := (heap healthy_world)(8 := Some (build_Logger verbose logFile
           (Ptr TSyslog (Some 5)) (Ptr TSyslog (Some 6)) (Ptr TSyslog (Some 7)))),
        nextAddr := 9, dial := []\<rparr>)"
proof -
  have r: "registers healthy_world \<or> \<not> True" by (simp add: registers_healthy_world)
  have h: "heap healthy_world (defaultLogger healthy_world) = Some
        \<lparr>logFatal = log_New [os_Stderr] (initText @ tagFatal) flags,
         logError = log_New [os_Stderr] (initText @ tagError) flags,
         logWarn = log_New [os_Stderr] (initText @ tagWarn) flags,
         logInfo = log_New [os_Stderr] (initText @ tagInfo) flags,
         logTrace = log_New [os_Stderr] (initText @ tagTrace) flags,
         closers = [],
         initialized = False\<rparr>" by (simp add: healthy_world_def)
  from Init_returns [OF ready_healthy_world r
      system_endpoints_registers [OF registers_healthy_world, of name] h,
      where lb = lb and verbose = verbose and logFile = logFile]
  show ?thesis by simp
qed

lemma serving_world_fields [simp]:
  "logLock serving_world = False"
  "defaultLogger serving_world = 8"
  "trace serving_world = []"
  "on_write serving_world = (\<lambda>t x p. WOk)"
  "on_close serving_world = (\<lambda>t c. COk)"
  "heap serving_world 8 = Some demo_logger"
  by (simp_all add: serving_world_def Init_healthy_world_on demo_logger_def)

lemmas run_defs = Logger_Error_def Logger_Info_def Logger_output_def Logger_Close_def locked_def
  output_to_def log_Output_def endpoint_Write_def record_event_def format_line_def
  eFatal_def eError_def eWarn_def eInfo_def eTrace_def present_def lib0_def
  tagFatal_def tagError_def tagWarn_def tagInfo_def tagTrace_def newline_def
  os_Stderr_def os_Stdout_def logfile_def buffer_def

section \<open>The claims\<close>

subsection \<open>C1: the per-severity endpoint lists\<close>

text \<open>
  C1. Every call \<^verbatim>\<open>Init(name, verbose, systemLog, logFile)\<close> from a ready process whose
  system-log registration does not fail returns a Logger with these lists. Error and Fatal:
  \<open>logFile\<close>, the system-log error endpoint if present, then the console
  (\<^verbatim>\<open>os.Stderr\<close>), last and whatever \<open>verbose\<close> is. Warning: \<open>logFile\<close>, the
  system-log warning endpoint if present, and the console (\<^verbatim>\<open>os.Stdout\<close>) exactly when
  \<open>verbose\<close>. Info and Trace: \<open>logFile\<close>, the system-log info endpoint if present, and
  the console exactly when \<open>verbose\<close>. \<open>logFile\<close> is first in every list. The three
  system-log endpoints are present exactly when \<open>systemLog\<close> is set, and are then the
  three writers the adapter made. (A call whose registration fails does not return; see
  C7.)
\<close>

theorem Init_endpoint_lists:
  assumes "ready w" and "registers w \<or> \<not> systemLog"
    and "system_endpoints name systemLog w = ((il, wl, el, err), w1)"
  shows "\<exists>l w' lg. Init lb name verbose systemLog logFile w = Returned l w' \<and> heap w' l = Some lg
     \<and> lg_out (logError lg) = [logFile] @ present el @ [os_Stderr]
     \<and> lg_out (logFatal lg) = [logFile] @ present el @ [os_Stderr]
     \<and> lg_out (logWarn lg) = [logFile] @ present wl @ (if verbose then [os_Stdout] else [])
     \<and> lg_out (logInfo lg) = [logFile] @ present il @ (if verbose then [os_Stdout] else [])
     \<and> lg_out (logTrace lg) = [logFile] @ present il @ (if verbose then [os_Stdout] else [])
     \<and> (if systemLog
         then il = Ptr TSyslog (Some (nextAddr w)) \<and> wl = Ptr TSyslog (Some (Suc (nextAddr w)))
            \<and> el = Ptr TSyslog (Some (Suc (Suc (nextAddr w))))
         else il = NilWriter \<and> wl = NilWriter \<and> el = NilWriter)"
proof -
  from assms(1) obtain d where d: "heap w (defaultLogger w) = Some d"
    by (auto simp: ready_def)
  note r = Init_returns [OF assms d, of lb verbose logFile]
  note s = system_endpoints_returns [OF assms(2,3)]
  show ?thesis
    apply (rule exI [of _ "nextAddr w1"])
    apply (rule exI [of _ "w1\<lparr>defaultLogger := (if initialized d then defaultLogger w else nextAddr w1),
           heap := (heap w)(nextAddr w1 := Some (build_Logger verbose logFile il wl el)),
           nextAddr := Suc (nextAddr w1)\<rparr>"])
    apply (rule exI [of _ "build_Logger verbose logFile il wl el"])
    using r s apply simp
    done
qed

text \<open>
  The hypotheses hold in the healthy process with the system log asked for; the lists
  are the ones of C1 for \<open>verbose = False\<close>.
\<close>

theorem Init_endpoint_lists_witness:
  "ready healthy_world \<and> registers healthy_world
   \<and> system_endpoints ''app'' True healthy_world =
       ((Ptr TSyslog (Some 5), Ptr TSyslog (Some 6), Ptr TSyslog (Some 7), None),
        healthy_world\<lparr>nextAddr := 8, dial := []\<rparr>)
   \<and> (\<exists>l w' lg. Init lib0 ''app'' False True logfile healthy_world = Returned l w' \<and> heap w' l = Some lg
     \<and> lg_out (logError lg) = [logfile, Ptr TSyslog (Some 7), os_Stderr]
     \<and> lg_out (logFatal lg) = [logfile, Ptr TSyslog (Some 7), os_Stderr]
     \<and> lg_out (logWarn lg) = [logfile, Ptr TSyslog (Some 6)]
     \<and> lg_out (logInfo lg) = [logfile, Ptr TSyslog (Some 5)]
     \<and> lg_out (logTrace lg) = [logfile, Ptr TSyslog (Some 5)])"
proof -
  have h1: "ready healthy_world" by (simp add: healthy_world_def ready_main_world)
  have h2: "registers healthy_world" by (simp add: healthy_world_def registers_def)
  have h2': "registers healthy_world \<or> \<not> True" using h2 by simp
  have h3: "system_endpoints ''app'' True healthy_world =
       ((Ptr TSyslog (Some 5), Ptr TSyslog (Some 6), Ptr TSyslog (Some 7), None),
        healthy_world\<lparr>nextAddr := 8, dial := []\<rparr>)"
    using system_endpoints_registers [OF h2, of "''app''"] by (simp add: healthy_world_def)
  from Init_endpoint_lists [OF h1 h2' h3, of lib0 False logfile] h1 h2 h3
  show ?thesis by (auto simp: present_def)
qed

subsection \<open>C2: one write through the fan-out writer\<close>




subsection \<open>C3: the registry slot is replaced once\<close>

text \<open>
  C3. From a ready process whose default logger is the bootstrap one (not initialized)
  and whose system log never refuses a registration, a sequence of \<^verbatim>\<open>Init\<close> calls, the
  first with any arguments and then any calls \<open>cs\<close>, returns one pointer per call. The
  pointers differ from each other and from the bootstrap logger, each holds an initialized
  Logger, and after the first call and after every later one (\<open>k\<close> of the later calls
  done, for every \<open>k\<close>) the registry slot holds the first call's Logger: the first call
  installs it and no later call changes the slot.
\<close>

theorem registry_replaced_by_first_Init_only:
  assumes "ready w" and "always_registers w"
    and "heap w (defaultLogger w) = Some d" and "\<not> initialized d"
  shows "\<exists>l ls w'. Init_calls lb ((name, verbose, systemLog, logFile) # cs) w = Returned (l # ls) w'
     \<and> length ls = length cs \<and> distinct (defaultLogger w # l # ls)
     \<and> list_all (usable w') (l # ls)
     \<and> (\<forall>k\<le>length cs.
          defaultLogger (final (Init_calls lb ((name, verbose, systemLog, logFile) # take k cs) w)) = l)"
proof -
  from Init_step [OF assms(1,2,3), of lb name verbose systemLog logFile]
  obtain l w1 lg where
    i: "Init lb name verbose systemLog logFile w = Returned l w1"
    and r1: "ready w1" and a1: "always_registers w1"
    and ge: "nextAddr w \<le> l" and lt: "l < nextAddr w1"
    and hl: "heap w1 l = Some lg" and il: "initialized lg"
    and df: "defaultLogger w1 = l"
    using assms(4) by auto
  have hd: "heap w1 (defaultLogger w1) = Some lg" using hl df by simp
  note keep = Init_calls_keep [OF r1 a1 hd il, of lb]
  from keep [of cs] obtain ls w' where
    ih: "Init_calls lb cs w1 = Returned ls w'" and len: "length ls = length cs"
    and dis: "distinct ls" and mem: "\<forall>p\<in>set ls. nextAddr w1 \<le> p \<and> usable w' p"
    and fr': "\<forall>a<nextAddr w1. heap w' a = heap w1 a" by blast
  have dl: "defaultLogger w < nextAddr w" using assms(1) by (simp add: ready_def)
  have run: "Init_calls lb ((name, verbose, systemLog, logFile) # cs) w = Returned (l # ls) w'"
    using i ih by simp
  have d3: "distinct (defaultLogger w # l # ls)" using dis mem lt ge dl by auto
  have us: "list_all (usable w') (l # ls)"
    using mem fr' lt hl il by (simp add: usable_def list_all_iff)
  have pre: "defaultLogger (final (Init_calls lb ((name, verbose, systemLog, logFile) # take k cs) w)) = l"
    for k
  proof -
    from keep [of "take k cs"] obtain ls' w'' where
      "Init_calls lb (take k cs) w1 = Returned ls' w''" and "defaultLogger w'' = defaultLogger w1"
      by blast
    then show ?thesis using i df by simp
  qed
  show ?thesis using run len d3 us pre by blast
qed

text \<open>
  Three calls in the healthy process; after the first alone the slot holds address 5,
  the first call's Logger.
\<close>

theorem registry_replaced_by_first_Init_only_witness:
  "ready healthy_world \<and> always_registers healthy_world
   \<and> heap healthy_world (defaultLogger healthy_world) = Some bootstrap_logger
   \<and> \<not> initialized bootstrap_logger
   \<and> (\<exists>l ls w'. Init_calls lib0 ((''app'', False, False, logfile) # demo_calls) healthy_world = Returned (l # ls) w'
     \<and> length ls = length demo_calls \<and> distinct (defaultLogger healthy_world # l # ls)
     \<and> list_all (usable w') (l # ls)
     \<and> (\<forall>k\<le>length demo_calls.
          defaultLogger (final (Init_calls lib0 ((''app'', False, False, logfile) # take k demo_calls) healthy_world)) = l))
   \<and> defaultLogger (final (Init_calls lib0 [(''app'', False, False, logfile)] healthy_world)) = 5"
proof -
  have h1: "ready healthy_world" by (rule ready_healthy_world)
  have h2: "always_registers healthy_world" by (simp add: always_registers_def)
  have h3: "heap healthy_world (defaultLogger healthy_world) = Some bootstrap_logger"
    by (simp add: healthy_world_def bootstrap_logger_def)
  have h4: "\<not> initialized bootstrap_logger" by (simp add: bootstrap_logger_def)
  have c: "\<exists>l ls w'. Init_calls lib0 ((''app'', False, False, logfile) # demo_calls) healthy_world = Returned (l # ls) w'
     \<and> length ls = length demo_calls \<and> distinct (defaultLogger healthy_world # l # ls)
     \<and> list_all (usable w') (l # ls)
     \<and> (\<forall>k\<le>length demo_calls.
          defaultLogger (final (Init_calls lib0 ((''app'', False, False, logfile) # take k demo_calls) healthy_world)) = l)"
    by (rule registry_replaced_by_first_Init_only [OF h1 h2 h3 h4])
  have e: "defaultLogger (final (Init_calls lib0 [(''app'', False, False, logfile)] healthy_world)) = 5"
    by (simp add: healthy_world_def Init_main_world_off)
  from h1 h2 h3 h4 c e show ?thesis by (intro conjI)
qed

subsection \<open>C4: every closable endpoint is closed once\<close>



subsection \<open>C5: Close twice\<close>

text \<open>
  C5 says that a second \<^verbatim>\<open>Close\<close> does not release an endpoint again. \<^verbatim>\<open>Close\<close> keeps no
  record of having run: it tests \<^verbatim>\<open>initialized\<close>, which nothing clears, and walks the
  closers. What holds, C5 as amended: on a Logger whose closers' \<^verbatim>\<open>Close\<close> methods do not
  panic, two \<^verbatim>\<open>Close\<close> calls in a row both return to the caller without an error (a failed
  close is printed, not raised), and each of the two calls the \<^verbatim>\<open>Close\<close> method of every
  closer once, in the closers' order: twice in total. (For the bootstrap logger, not
  initialized, neither call closes anything.)
\<close>

theorem Close_twice_closes_twice:
  assumes "\<not> logLock w" and "heap w l = Some lg" and "\<forall>c\<in>set (closers lg). close_safe w c"
  shows "\<exists>e1 e2.
       Logger_Close l w = Returned () (w\<lparr>trace := trace w @ e1\<rparr>)
     \<and> Logger_Close l (w\<lparr>trace := trace w @ e1\<rparr>) = Returned () (w\<lparr>trace := trace w @ e1 @ e2\<rparr>)
     \<and> closed_by e1 = (if initialized lg then closers lg else [])
     \<and> closed_by e2 = (if initialized lg then closers lg else [])"
proof -
  from Logger_Close_safe [OF assms] obtain e1 where
    c1: "Logger_Close l w = Returned () (w\<lparr>trace := trace w @ e1\<rparr>)"
    and b1: "closed_by e1 = (if initialized lg then closers lg else [])" by blast
  let ?w1 = "w\<lparr>trace := trace w @ e1\<rparr>"
  have "\<not> logLock ?w1" "heap ?w1 l = Some lg" "\<forall>c\<in>set (closers lg). close_safe ?w1 c"
    using assms by simp_all
  from Logger_Close_safe [OF this] obtain e2 where
    c2: "Logger_Close l ?w1 = Returned () (?w1\<lparr>trace := trace ?w1 @ e2\<rparr>)"
    and b2: "closed_by e2 = (if initialized lg then closers lg else [])" by blast
  from c2 have "Logger_Close l ?w1 = Returned () (w\<lparr>trace := trace w @ e1 @ e2\<rparr>)" by simp
  with c1 b1 b2 show ?thesis by blast
qed

text \<open>
  The logger with four closers: each of the two calls closes all four.
\<close>

theorem Close_twice_closes_twice_witness:
  "\<not> logLock serving_world \<and> heap serving_world 8 = Some demo_logger
   \<and> list_all (close_safe serving_world) (closers demo_logger)
   \<and> initialized demo_logger
   \<and> closers demo_logger = [logfile, Ptr TSyslog (Some 5), Ptr TSyslog (Some 6), Ptr TSyslog (Some 7)]
   \<and> (\<exists>e1 e2.
       Logger_Close 8 serving_world = Returned () (serving_world\<lparr>trace := e1\<rparr>)
     \<and> Logger_Close 8 (serving_world\<lparr>trace := e1\<rparr>) = Returned () (serving_world\<lparr>trace := e1 @ e2\<rparr>)
     \<and> closed_by e1 = [logfile, Ptr TSyslog (Some 5), Ptr TSyslog (Some 6), Ptr TSyslog (Some 7)]
     \<and> closed_by e2 = [logfile, Ptr TSyslog (Some 5), Ptr TSyslog (Some 6), Ptr TSyslog (Some 7)])"
proof -
  have h1: "\<not> logLock serving_world" by simp
  have h2: "heap serving_world 8 = Some demo_logger" by simp
  have h3: "\<forall>c\<in>set (closers demo_logger). close_safe serving_world c"
    by (simp add: close_safe_def)
  have c: "closers demo_logger = [logfile, Ptr TSyslog (Some 5), Ptr TSyslog (Some 6), Ptr TSyslog (Some 7)]"
    by (simp add: demo_logger_def logfile_def)
  have i: "initialized demo_logger" by (simp add: demo_logger_def)
  from Close_twice_closes_twice [OF h1 h2 h3] h1 h2 h3 c i
  show ?thesis by (simp add: list_all_iff)
qed

text \<open>
  C5 as stated fails. A logger over a file is closed twice: the file's \<^verbatim>\<open>Close\<close> method
  is called twice, and the second call's error is printed.
\<close>

theorem second_Close_closes_again:
  "returned close_twice_run
   \<and> trace (final close_twice_run) =
       [EvClose logfile, EvClose logfile, EvCloseFailed logfile ''file already closed'']
   \<and> count_list (closed_by (trace (final close_twice_run))) logfile = 2"
  by (simp add: close_twice_run_def realistic_world_def Init_main_world_off run_defs)

subsection \<open>C6: logging after Close\<close>

text \<open>
  C6. The comment of \<^verbatim>\<open>Close\<close> promises \<^verbatim>\<open>Once Close is called, all future calls to the
  logger will panic\<close>, and nothing in the code does it: \<^verbatim>\<open>Close\<close> changes no field of the
  Logger and \<^verbatim>\<open>output\<close> tests none. After \<^verbatim>\<open>Init\<close> and \<^verbatim>\<open>Close\<close>, an \<^verbatim>\<open>Info\<close> call
  returns normally. With a file as sink the write is attempted on the closed file, the
  file refuses it, and the error is dropped: the record is lost in silence. With a buffer
  as sink (no \<^verbatim>\<open>Close\<close> method) the record is written as before.
\<close>

theorem emission_after_Close_does_not_panic:
  "returned use_after_close_run \<and> \<not> panicked use_after_close_run
   \<and> trace (final use_after_close_run) =
       [EvClose logfile, EvWrite logfile (''[I] 2026/01/02 03:04:05.000000 main.go:10: lost'' @ [newline])]
   \<and> on_write realistic_world [EvClose logfile] logfile
        (''[I] 2026/01/02 03:04:05.000000 main.go:10: lost'' @ [newline]) = WErr ''file already closed''
   \<and> returned use_after_close_buffer_run \<and> \<not> panicked use_after_close_buffer_run
   \<and> trace (final use_after_close_buffer_run) =
       [EvWrite buffer (''[I] 2026/01/02 03:04:05.000000 main.go:10: kept'' @ [newline])]"
  by (simp add: use_after_close_run_def use_after_close_buffer_run_def realistic_world_def
      healthy_world_def Init_main_world_off run_defs)

subsection \<open>C7: Init when the registration fails\<close>

text \<open>
  C7. \<^verbatim>\<open>Init\<close> keeps the adapter's error and, at its end, logs it with the package-level
  \<^verbatim>\<open>Error\<close>: but it does so while it still holds \<^verbatim>\<open>logLock\<close> (the unlock is deferred to
  the return), and \<^verbatim>\<open>output\<close> locks the same mutex first. With the system log asked for
  and unreachable, \<^verbatim>\<open>Init\<close> blocks there: it does not return, the mutex stays held, and
  no record is written. The Logger it had built differs from the one built with the
  system log off: \<^verbatim>\<open>setup\<close> returned nil \<^verbatim>\<open>*syslog.Writer\<close> pointers, which are not nil
  as \<^verbatim>\<open>io.Writer\<close> values, so they stand in the lists and the closers. (Lemma
  \<open>Init_deadlocks_when_registration_fails\<close> above: so it is in every ready process whose
  registration fails.)
\<close>

theorem failed_registration_deadlocks_Init:
  "deadlocked registration_fails_run \<and> \<not> returned registration_fails_run
   \<and> logLock (final registration_fails_run)
   \<and> trace (final registration_fails_run) = []
   \<and> map_option (\<lambda>lg. lg_out (logError lg)) (heap (final registration_fails_run) 5)
        = Some [logfile, Ptr TSyslog None, os_Stderr]
   \<and> map_option closers (heap (final registration_fails_run) 5)
        = Some [logfile, Ptr TSyslog None, Ptr TSyslog None, Ptr TSyslog None]
   \<and> returned registration_off_run
   \<and> map_option (\<lambda>lg. lg_out (logError lg)) (heap (final registration_off_run) 5)
        = Some [logfile, os_Stderr]"
  by (simp add: registration_fails_run_def registration_off_run_def no_syslog_world_def
      Init_main_world_off Init_def system_endpoints_def setup_syslog_def syslog_New_def
      new_Logger_def Error_def run_defs)

subsection \<open>C8: Fatal\<close>

text \<open>
  C8. On a Logger whose Fatal endpoints' \<^verbatim>\<open>Write\<close> and whose closers' \<^verbatim>\<open>Close\<close> do not
  panic, each of \<^verbatim>\<open>Fatal\<close>, \<^verbatim>\<open>FatalDepth\<close>, \<^verbatim>\<open>Fatalln\<close> and \<^verbatim>\<open>Fatalf\<close>, as a method and
  (when the Logger is the default one) as a package-level function, first sends the
  record through the Fatal fan-out writer, then runs \<^verbatim>\<open>Close\<close> on the same Logger, and
  only then, \<^verbatim>\<open>Close\<close> having returned, ends the process with status 1.
\<close>

theorem Fatal_emits_closes_exits:
  assumes "\<not> logLock w" and "heap w l = Some lg"
    and "\<forall>x\<in>set (lg_out (logFatal lg)). write_safe w x"
    and "\<forall>c\<in>set (closers lg). close_safe w c"
  shows "fatal_steps lb l 0 (Sprint lb v) w (Logger_Fatal lb l v w)
     \<and> fatal_steps lb l depth (Sprint lb v) w (Logger_FatalDepth lb l depth v w)
     \<and> fatal_steps lb l 0 (Sprintln lb v) w (Logger_Fatalln lb l v w)
     \<and> fatal_steps lb l 0 (Sprintf lb format v) w (Logger_Fatalf lb l format v w)
     \<and> (defaultLogger w = l \<longrightarrow>
          fatal_steps lb l 0 (Sprint lb v) w (Fatal lb v w)
        \<and> fatal_steps lb l depth (Sprint lb v) w (FatalDepth lb depth v w)
        \<and> fatal_steps lb l 0 (Sprintln lb v) w (Fatalln lb v w)
        \<and> fatal_steps lb l 0 (Sprintf lb format v) w (Fatalf lb format v w))"
proof -
  note f = fatal_steps_holds [OF assms, of lb]
  have methods: "fatal_steps lb l 0 (Sprint lb v) w (Logger_Fatal lb l v w)"
    "fatal_steps lb l depth (Sprint lb v) w (Logger_FatalDepth lb l depth v w)"
    "fatal_steps lb l 0 (Sprintln lb v) w (Logger_Fatalln lb l v w)"
    "fatal_steps lb l 0 (Sprintf lb format v) w (Logger_Fatalf lb l format v w)"
    using f [of 0 "Sprint lb v"] f [of depth "Sprint lb v"] f [of 0 "Sprintln lb v"]
      f [of 0 "Sprintf lb format v"]
    by (simp_all add: Logger_Fatal_def Logger_FatalDepth_def Logger_Fatalln_def Logger_Fatalf_def)
  have pkg: "fatal_steps lb l 0 (Sprint lb v) w (Fatal lb v w)
        \<and> fatal_steps lb l depth (Sprint lb v) w (FatalDepth lb depth v w)
        \<and> fatal_steps lb l 0 (Sprintln lb v) w (Fatalln lb v w)
        \<and> fatal_steps lb l 0 (Sprintf lb format v) w (Fatalf lb format v w)"
    if d: "defaultLogger w = l"
  proof -
    have h: "heap w (defaultLogger w) = Some lg" using assms(2) d by simp
    note g = fatal_steps_default [OF assms(1) h assms(3,4), of lb]
    show ?thesis
      using g [of 0 "Sprint lb v"] g [of depth "Sprint lb v"] g [of 0 "Sprintln lb v"]
        g [of 0 "Sprintf lb format v"] d
      by (simp add: Fatal_def FatalDepth_def Fatalln_def Fatalf_def)
  qed
  from methods pkg show ?thesis by blast
qed

text \<open>
  The logger of the healthy process, which is also the default logger; its \<^verbatim>\<open>Fatal\<close>
  writes the line to the file, the system log and the console, closes the four closers
  and exits with status 1.
\<close>

theorem Fatal_emits_closes_exits_witness:
  "\<not> logLock serving_world \<and> heap serving_world 8 = Some demo_logger
   \<and> list_all (write_safe serving_world) (lg_out (logFatal demo_logger))
   \<and> list_all (close_safe serving_world) (closers demo_logger)
   \<and> defaultLogger serving_world = 8
   \<and> fatal_steps lib0 8 0 ''bye'' serving_world (Logger_Fatal lib0 8 [VString ''bye''] serving_world)
   \<and> fatal_steps lib0 8 2 ''bye'' serving_world (Logger_FatalDepth lib0 8 2 [VString ''bye''] serving_world)
   \<and> fatal_steps lib0 8 0 (''bye'' @ [newline]) serving_world (Logger_Fatalln lib0 8 [VString ''bye''] serving_world)
   \<and> fatal_steps lib0 8 0 ''bye %v'' serving_world (Logger_Fatalf lib0 8 ''bye %v'' [VString ''bye''] serving_world)
   \<and> fatal_steps lib0 8 0 ''bye'' serving_world (Fatal lib0 [VString ''bye''] serving_world)
   \<and> fatal_steps lib0 8 2 ''bye'' serving_world (FatalDepth lib0 2 [VString ''bye''] serving_world)
   \<and> fatal_steps lib0 8 0 (''bye'' @ [newline]) serving_world (Fatalln lib0 [VString ''bye''] serving_world)
   \<and> fatal_steps lib0 8 0 ''bye %v'' serving_world (Fatalf lib0 ''bye %v'' [VString ''bye''] serving_world)
   \<and> Logger_Fatal lib0 8 [VString ''bye''] serving_world =
     Exited 1 (serving_world\<lparr>trace :=
       [EvWrite logfile (''[F] 2026/01/02 03:04:05.000000 main.go:10: bye'' @ [newline]),
        EvWrite (Ptr TSyslog (Some 7)) (''[F] 2026/01/02 03:04:05.000000 main.go:10: bye'' @ [newline]),
        EvWrite os_Stderr (''[F] 2026/01/02 03:04:05.000000 main.go:10: bye'' @ [newline]),
        EvClose logfile, EvClose (Ptr TSyslog (Some 5)), EvClose (Ptr TSyslog (Some 6)),
        EvClose (Ptr TSyslog (Some 7))]\<rparr>)"
proof -
  have run: "Logger_Fatal lib0 8 [VString ''bye''] serving_world =
     Exited 1 (serving_world\<lparr>trace :=
       [EvWrite logfile (''[F] 2026/01/02 03:04:05.000000 main.go:10: bye'' @ [newline]),
        EvWrite (Ptr TSyslog (Some 7)) (''[F] 2026/01/02 03:04:05.000000 main.go:10: bye'' @ [newline]),
        EvWrite os_Stderr (''[F] 2026/01/02 03:04:05.000000 main.go:10: bye'' @ [newline]),
        EvClose logfile, EvClose (Ptr TSyslog (Some 5)), EvClose (Ptr TSyslog (Some 6)),
        EvClose (Ptr TSyslog (Some 7))]\<rparr>)"
    by (simp add: Logger_Fatal_def os_Exit_def demo_logger_def run_defs)
  have h1: "\<not> logLock serving_world" by simp
  have h2: "heap serving_world 8 = Some demo_logger" by simp
  have h3: "\<forall>x\<in>set (lg_out (logFatal demo_logger)). write_safe serving_world x"
    by (simp add: write_safe_def demo_logger_def present_def logfile_def os_Stderr_def)
  have h4: "\<forall>c\<in>set (closers demo_logger). close_safe serving_world c"
    by (simp add: close_safe_def)
  from Fatal_emits_closes_exits [OF h1 h2 h3 h4, of lib0 "[VString ''bye'']" 2 "''bye %v''"] h1 h2 h3 h4
  have "\<not> logLock serving_world \<and> heap serving_world 8 = Some demo_logger
   \<and> list_all (write_safe serving_world) (lg_out (logFatal demo_logger))
   \<and> list_all (close_safe serving_world) (closers demo_logger)
   \<and> defaultLogger serving_world = 8
   \<and> fatal_steps lib0 8 0 ''bye'' serving_world (Logger_Fatal lib0 8 [VString ''bye''] serving_world)
   \<and> fatal_steps lib0 8 2 ''bye'' serving_world (Logger_FatalDepth lib0 8 2 [VString ''bye''] serving_world)
   \<and> fatal_steps lib0 8 0 (''bye'' @ [newline]) serving_world (Logger_Fatalln lib0 8 [VString ''bye''] serving_world)
   \<and> fatal_steps lib0 8 0 ''bye %v'' serving_world (Logger_Fatalf lib0 8 ''bye %v'' [VString ''bye''] serving_world)
   \<and> fatal_steps lib0 8 0 ''bye'' serving_world (Fatal lib0 [VString ''bye''] serving_world)
   \<and> fatal_steps lib0 8 2 ''bye'' serving_world (FatalDepth lib0 2 [VString ''bye''] serving_world)
   \<and> fatal_steps lib0 8 0 (''bye'' @ [newline]) serving_world (Fatalln lib0 [VString ''bye''] serving_world)
   \<and> fatal_steps lib0 8 0 ''bye %v'' serving_world (Fatalf lib0 ''bye %v'' [VString ''bye''] serving_world)"
    by (simp add: list_all_iff lib0_def)
  with run show ?thesis by blast
qed

subsection \<open>C9: the tag of every record\<close>



subsection \<open>C10: depth 0\<close>

text \<open>
  C10. For every logger, severity and argument list, the depth-parameterised variant
  called with depth 0 is the plain variant: the two calls are the same function of the
  world, as methods and as package-level functions.
\<close>

theorem depth_zero_is_plain:
  "Logger_TraceDepth lb l 0 v = Logger_Trace lb l v
   \<and> Logger_InfoDepth lb l 0 v = Logger_Info lb l v
   \<and> Logger_WarningDepth lb l 0 v = Logger_Warning lb l v
   \<and> Logger_ErrorDepth lb l 0 v = Logger_Error lb l v
   \<and> Logger_FatalDepth lb l 0 v = Logger_Fatal lb l v
   \<and> TraceDepth lb 0 v = Trace lb v
   \<and> InfoDepth lb 0 v = Info lb v
   \<and> WarningDepth lb 0 v = Warning lb v
   \<and> ErrorDepth lb 0 v = Error lb v
   \<and> FatalDepth lb 0 v = Fatal lb v"
  by (simp add: Logger_TraceDepth_def Logger_Trace_def Logger_InfoDepth_def Logger_Info_def
      Logger_WarningDepth_def Logger_Warning_def Logger_ErrorDepth_def Logger_Error_def
      Logger_FatalDepth_def Logger_Fatal_def TraceDepth_def Trace_def InfoDepth_def Info_def
      WarningDepth_def Warning_def ErrorDepth_def Error_def FatalDepth_def Fatal_def fun_eq_iff)

end
